theory Spec2Isabelle
  imports Complex_Main "HOL-Library.Multiset"
begin

section \<open>Data model\<close>

text \<open>
  The filter \<^verbatim>\<open>HigherOrderAccurateGradientImageFilter\<close> is a class template over the
  image type. Its two entry points, \<^verbatim>\<open>GenerateInputRequestedRegion\<close> and
  \<^verbatim>\<open>DynamicThreadedGenerateData\<close>, are embedded below from
  \<^verbatim>\<open>itkHigherOrderAccurateGradientImageFilter.hxx\<close>. Indices are mathematical integers
  and sizes natural numbers (the source's 64-bit \<^verbatim>\<open>IndexValueType\<close> and
  \<^verbatim>\<open>SizeValueType\<close>, away from overflow). Pixel values, spacings and kernel
  coefficients are elements of an arbitrary type \<open>'a\<close> that only has the operations the
  source applies to them (\<open>0\<close>, \<open>1\<close>, \<open>+\<close>, \<open>*\<close>, \<open>/\<close>): no algebraic law is built into any
  definition, and a theorem that needs laws asks for them in its type.
\<close>

text \<open>An \<^verbatim>\<open>ImageRegion\<close>: start index and size per axis.\<close>

record region =
  GetIndex :: "int list"
  GetSize :: "nat list"

text \<open>
  An image: the template constant \<^verbatim>\<open>ImageDimension\<close>, spacing, direction cosines (rows of
  the matrix), the three regions of the pipeline, and the pixel buffer as a function of the
  index.
\<close>

record ('a, 'p) image =
  ImageDimension :: nat
  GetSpacing :: "'a list"
  GetDirection :: "'a list list"
  GetLargestPossibleRegion :: region
  GetRequestedRegion :: region
  GetBufferedRegion :: region
  Pixel :: "int list \<Rightarrow> 'p"

text \<open>
  The filter object: its three private members (header, lines 173 to 179) and the two
  image pointers \<^verbatim>\<open>GetInput()\<close> and \<^verbatim>\<open>GetOutput()\<close>, \<open>None\<close> for a null pointer. The
  output pixel is a covariant vector, one component per axis.
\<close>

record 'a gradient_filter =
  m_UseImageSpacing :: bool
  m_UseImageDirection :: bool
  m_OrderOfAccuracy :: nat
  GetInput :: "('a, 'a) image option"
  GetOutput :: "('a, 'a list) image option"

text \<open>
  The exceptions the source throws: \<^verbatim>\<open>InvalidRequestedRegionError\<close> with its description
  (lines 86 to 90) and the \<^verbatim>\<open>ExceptionObject\<close> of \<^verbatim>\<open>itkExceptionMacro\<close> with its message
  (line 133). \<open>NullPointer\<close> marks a dereference of an absent image, which the source
  leaves undefined.
\<close>

datatype error =
  InvalidRequestedRegionError string
  | ExceptionObject string
  | NullPointer

text \<open>
  A derivative operator as the filter sees it: \<^verbatim>\<open>GetRadius()[0]\<close> and the coefficient
  buffer from \<^verbatim>\<open>Begin()\<close> to \<^verbatim>\<open>End()\<close>. The class
  \<^verbatim>\<open>HigherOrderAccurateDerivativeOperator\<close> that computes the coefficients is not among
  the sources and the specification leaves its formula open, so every function below takes
  the constructor sequence of lines 56 to 60 and 119 to 122 (direction 0, order 1, the given
  order of accuracy, \<^verbatim>\<open>CreateDirectional\<close>) as a parameter \<open>CreateDirectional\<close> from the
  order of accuracy to the operator.
\<close>

record 'a operator =
  GetRadius :: nat
  Coefficients :: "'a list"

section \<open>Region primitives\<close>

definition intervals :: "region \<Rightarrow> (int \<times> nat) list" where
  "intervals R = zip (GetIndex R) (GetSize R)"

definition region_of :: "(int \<times> nat) list \<Rightarrow> region" where
  "region_of ivs = \<lparr>GetIndex = map fst ivs, GetSize = map snd ivs\<rparr>"

text \<open>
  Modelled from the spec: \<^verbatim>\<open>ImageRegion::PadByRadius\<close> is a library primitive that is not
  among the sources (section 6, \<open>pad(region, radius)\<close>): the region grows by the radius on
  both sides of every axis.
\<close>

definition PadByRadius :: "nat \<Rightarrow> region \<Rightarrow> region" where
  "PadByRadius radius R =
     \<lparr>GetIndex = map (\<lambda>x. x - int radius) (GetIndex R),
      GetSize = map (\<lambda>s. s + 2 * radius) (GetSize R)\<rparr>"

text \<open>
  Modelled from the spec: \<^verbatim>\<open>ImageRegion::Crop\<close> is a library primitive that is not among
  the sources (section 6, \<open>crop(region, bound) \<rightarrow> success flag\<close>). Cropping is impossible
  when on some axis the region starts at or after the end of the bound, or ends at or before
  its start; then the flag is false and the region is left as it was, which is what the
  source relies on at line 82 (\<^verbatim>\<open>store what we tried to request (prior to trying to crop)\<close>)
  and what section 8 of the specification states. Otherwise the region is cut to the bound
  on every axis.
\<close>

fun cropPossible :: "int \<times> nat \<Rightarrow> int \<times> nat \<Rightarrow> bool" where
  "cropPossible (s, n) (b, m) = (\<not> (b + int m \<le> s) \<and> \<not> (s + int n \<le> b))"

fun crop_axis :: "int \<times> nat \<Rightarrow> int \<times> nat \<Rightarrow> int \<times> nat" where
  "crop_axis (s, n) (b, m) =
     (let (s1, n1) = (if s < b then (b, n - nat (b - s)) else (s, n));
          n2 = (if b + int m < s1 + int n1 then n1 - nat (s1 + int n1 - (b + int m)) else n1)
      in (s1, n2))"

definition Crop :: "region \<Rightarrow> region \<Rightarrow> bool \<times> region" where
  "Crop R bound =
     (if list_all (\<lambda>(a, b). cropPossible a b) (zip (intervals R) (intervals bound))
      then (True, region_of (map (\<lambda>(a, b). crop_axis a b) (zip (intervals R) (intervals bound))))
      else (False, R))"

section \<open>GenerateInputRequestedRegion\<close>

text \<open>
  Modelled from the spec: \<^verbatim>\<open>ImageToImageFilter::GenerateInputRequestedRegion\<close>, the
  superclass method called at line 44, is not among the sources. It copies the output's
  requested region to the input, as the comment at lines 63 and 64 records (\<^verbatim>\<open>should equal
  the output requested region\<close>); without both images it does nothing.
\<close>

definition Superclass_GenerateInputRequestedRegion :: "'a gradient_filter \<Rightarrow> 'a gradient_filter" where
  "Superclass_GenerateInputRequestedRegion f =
     (case (GetInput f, GetOutput f) of
        (Some inputPtr, Some outputPtr) \<Rightarrow>
          f\<lparr>GetInput := Some (inputPtr\<lparr>GetRequestedRegion := GetRequestedRegion outputPtr\<rparr>)\<rparr>
      | _ \<Rightarrow> f)"

text \<open>
  Lines 38 to 92. The result is the exception thrown, if any, and the filter as the call
  leaves it: the source stores the requested region before it throws.
\<close>

definition GenerateInputRequestedRegion ::
  "(nat \<Rightarrow> 'a operator) \<Rightarrow> 'a gradient_filter \<Rightarrow> error option \<times> 'a gradient_filter" where
  "GenerateInputRequestedRegion CreateDirectional f0 =
     (let f = Superclass_GenerateInputRequestedRegion f0 in
      case (GetInput f, GetOutput f) of
        (Some inputPtr, Some outputPtr) \<Rightarrow>
          (let oper = CreateDirectional (m_OrderOfAccuracy f);
               radius = GetRadius oper;
               inputRequestedRegion = PadByRadius radius (GetRequestedRegion inputPtr);
               (cropped, inputRequestedRegion) =
                  Crop inputRequestedRegion (GetLargestPossibleRegion inputPtr)
           in if cropped
              then (None,
                    f\<lparr>GetInput := Some (inputPtr\<lparr>GetRequestedRegion := inputRequestedRegion\<rparr>)\<rparr>)
              else (Some (InvalidRequestedRegionError
                      ''Requested region is (at least partially) outside the largest possible region.''),
                    f\<lparr>GetInput := Some (inputPtr\<lparr>GetRequestedRegion := inputRequestedRegion\<rparr>)\<rparr>))
      | _ \<Rightarrow> (None, f))"

section \<open>Kernels\<close>

text \<open>
  Modelled from the spec: \<^verbatim>\<open>FlipAxes\<close>, \<^verbatim>\<open>ScaleCoefficients\<close> and \<^verbatim>\<open>GetSize()[0]\<close>
  belong to the operator's library base class, which is not among the sources (section 6:
  \<open>flip()\<close> reverses the coefficient order, \<open>scaleBy\<close> multiplies every coefficient by a
  constant, and a kernel of radius \<open>r\<close> has \<open>2r + 1\<close> coefficients).
\<close>

definition FlipAxes :: "'a operator \<Rightarrow> 'a operator" where
  "FlipAxes oper = oper\<lparr>Coefficients := rev (Coefficients oper)\<rparr>"

definition ScaleCoefficients :: "'a::times \<Rightarrow> 'a operator \<Rightarrow> 'a operator" where
  "ScaleCoefficients s oper = oper\<lparr>Coefficients := map (\<lambda>c. c * s) (Coefficients oper)\<rparr>"

definition OperatorSize :: "'a operator \<Rightarrow> nat" where
  "OperatorSize oper = 2 * GetRadius oper + 1"

definition wf_operator :: "'a operator \<Rightarrow> bool" where
  "wf_operator oper = (length (Coefficients oper) = 2 * GetRadius oper + 1)"

text \<open>
  Lines 117 to 140, one pass of the loop body for axis \<open>i\<close>: build the operator, flip it,
  and, when spacing is in use, throw on a spacing equal to zero or scale by its inverse.
\<close>

definition SetUpOperator ::
  "(nat \<Rightarrow> 'a operator) \<Rightarrow> 'a gradient_filter \<Rightarrow> ('a::{zero,one,times,inverse}, 'a) image \<Rightarrow> nat
     \<Rightarrow> error + 'a operator" where
  "SetUpOperator CreateDirectional f inputImage i =
     (let oper = FlipAxes (CreateDirectional (m_OrderOfAccuracy f)) in
      if m_UseImageSpacing f = True
      then (if GetSpacing inputImage ! i = 0
            then Inl (ExceptionObject ''Image spacing cannot be zero.'')
            else Inr (ScaleCoefficients (1 / GetSpacing inputImage ! i) oper))
      else Inr oper)"

text \<open>The loop itself: the first axis that throws ends it.\<close>

fun SetUpOperators ::
  "(nat \<Rightarrow> 'a operator) \<Rightarrow> 'a gradient_filter \<Rightarrow> ('a::{zero,one,times,inverse}, 'a) image \<Rightarrow> nat list
     \<Rightarrow> error + 'a operator list" where
  "SetUpOperators CreateDirectional f inputImage [] = Inr []"
| "SetUpOperators CreateDirectional f inputImage (i # axes) =
     (case SetUpOperator CreateDirectional f inputImage i of
        Inl e \<Rightarrow> Inl e
      | Inr oper \<Rightarrow>
          (case SetUpOperators CreateDirectional f inputImage axes of
             Inl e \<Rightarrow> Inl e
           | Inr ops \<Rightarrow> Inr (oper # ops)))"

section \<open>Regions as lists of indices\<close>

text \<open>
  The indices an \<^verbatim>\<open>ImageRegionIterator\<close> visits, in its order: the first axis runs
  fastest.
\<close>

fun indices_of :: "(int \<times> nat) list \<Rightarrow> int list list" where
  "indices_of [] = [[]]"
| "indices_of ((s, n) # ivs) =
     concat (map (\<lambda>rest. map (\<lambda>k. (s + int k) # rest) [0..<n]) (indices_of ivs))"

definition region_indices :: "region \<Rightarrow> int list list" where
  "region_indices R = indices_of (intervals R)"

definition wf_region :: "nat \<Rightarrow> region \<Rightarrow> bool" where
  "wf_region N R = (length (GetIndex R) = N \<and> length (GetSize R) = N)"

section \<open>Boundary faces\<close>

text \<open>A face of the decomposition: a region and its interior/boundary flag (section 3).\<close>

record face =
  FaceRegion :: region
  IsInterior :: bool

text \<open>
  Modelled from the spec: the boundary-face decomposer
  (\<^verbatim>\<open>NeighborhoodAlgorithm::ImageBoundaryFacesCalculator\<close>, called at line 152) is not
  among the sources. Sections 2 and 4.2 ask for one interior face and boundary faces: axis
  by axis, the slab of the remaining region that lies within the radius of the low edge of
  the buffered region is cut off, then the slab within the radius of the high edge; what
  remains after the last axis is the interior face, which heads the list.
  \<open>BoundaryFaces vr bs rs\<close> cuts the intervals \<open>vr\<close> of the region against the intervals \<open>bs\<close>
  of the buffered region with the radii \<open>rs\<close>; the faces of the later axes keep what is left
  of the earlier ones.
\<close>

fun BoundaryFaces ::
  "(int \<times> nat) list \<Rightarrow> (int \<times> nat) list \<Rightarrow> nat list
     \<Rightarrow> (int \<times> nat) list list \<times> (int \<times> nat) list" where
  "BoundaryFaces ((s, n) # vr) ((b, m) # bs) (r # rs) =
     (let lo = nat (min (s + int n) (b + int r) - s);
          s1 = s + int lo;
          n1 = n - lo;
          hi = nat (s1 + int n1 - max s1 (b + int m - int r));
          mid = (s1, n1 - hi);
          (faces, nb) = BoundaryFaces vr bs rs
      in (((s, lo) # vr) # ((s1 + int (n1 - hi), hi) # vr) # map (\<lambda>F. mid # F) faces, mid # nb))"
| "BoundaryFaces vr bs rs = ([], vr)"

definition ImageBoundaryFacesCalculator ::
  "('a, 'p) image \<Rightarrow> region \<Rightarrow> nat list \<Rightarrow> face list" where
  "ImageBoundaryFacesCalculator img regionToProcess radius =
     (let (faces, nb) =
            BoundaryFaces (intervals regionToProcess) (intervals (GetBufferedRegion img)) radius
      in \<lparr>FaceRegion = region_of nb, IsInterior = True\<rparr>
         # map (\<lambda>F. \<lparr>FaceRegion = region_of F, IsInterior = False\<rparr>) faces)"

text \<open>
  The whole neighbourhood of radius \<open>radius\<close> around \<open>idx\<close> lies inside the region \<open>B\<close>.
\<close>

definition neighborhood_in_bounds :: "region \<Rightarrow> nat list \<Rightarrow> int list \<Rightarrow> bool" where
  "neighborhood_in_bounds B radius idx =
     list_all (\<lambda>(x, (b, m), r). b \<le> x - int r \<and> x + int r < b + int m)
       (zip idx (zip (intervals B) radius))"

section \<open>Neighbourhood iterator and inner product\<close>

text \<open>
  Modelled from the spec: \<^verbatim>\<open>ConstNeighborhoodIterator\<close>, the zero-flux Neumann boundary
  condition and \<^verbatim>\<open>NeighborhoodInnerProduct\<close> are library classes that are not among the
  sources (sections 4.3 and 4.4). A neighbourhood of radius \<open>radius\<close> is a buffer of
  \<open>\<Prod> (2 r\<^sub>j + 1)\<close> samples, the first axis running fastest: \<open>NeighborhoodSize\<close> is
  \<^verbatim>\<open>nit.Size()\<close>, \<open>GetStride\<close> is \<^verbatim>\<open>nit.GetStride(i)\<close> and \<open>GetOffset\<close> the offset from the
  centre of the sample at a position of the buffer. \<open>GetPixel\<close> reads the sample at a
  position of the buffer for the iterator standing at \<open>idx\<close>; a sample outside the buffered
  region is replaced by the nearest one inside.
\<close>

definition NeighborhoodSize :: "nat list \<Rightarrow> nat" where
  "NeighborhoodSize radius = prod_list (map (\<lambda>r. 2 * r + 1) radius)"

definition GetStride :: "nat list \<Rightarrow> nat \<Rightarrow> nat" where
  "GetStride radius i = prod_list (map (\<lambda>r. 2 * r + 1) (take i radius))"

definition GetOffset :: "nat list \<Rightarrow> nat \<Rightarrow> int list" where
  "GetOffset radius n =
     map (\<lambda>j. int ((n div GetStride radius j) mod (2 * radius ! j + 1)) - int (radius ! j))
       [0..<length radius]"

definition ZeroFluxNeumann :: "region \<Rightarrow> int list \<Rightarrow> int list" where
  "ZeroFluxNeumann B idx =
     map (\<lambda>(x, (b, m)). if x < b then b else if b + int m \<le> x then b + int m - 1 else x)
       (zip idx (intervals B))"

definition GetPixel :: "('a, 'p) image \<Rightarrow> nat list \<Rightarrow> int list \<Rightarrow> nat \<Rightarrow> 'p" where
  "GetPixel img radius idx n =
     Pixel img (ZeroFluxNeumann (GetBufferedRegion img)
       (map (\<lambda>(x, d). x + d) (zip idx (GetOffset radius n))))"

text \<open>A \<^verbatim>\<open>std::slice\<close>.\<close>

record slice =
  slice_start :: nat
  slice_size :: nat
  slice_stride :: nat

text \<open>
  Lines 157 to 165. The iterator of line 158 stands on the first face, but its size and its
  strides are those of the radius alone. The subtraction is the source's, on unsigned
  numbers; lemma \<open>x_slice_no_underflow\<close> below shows that it never wraps.
\<close>

definition x_slice :: "nat list \<Rightarrow> 'a operator list \<Rightarrow> nat \<Rightarrow> slice" where
  "x_slice radius ops i =
     (let center = NeighborhoodSize radius div 2
      in \<lparr>slice_start = center - GetStride radius i * radius ! i,
          slice_size = OperatorSize (ops ! i),
          slice_stride = GetStride radius i\<rparr>)"

text \<open>
  The inner product \<^verbatim>\<open>SIP(x_slice[i], nit, op[i])\<close> for the iterator standing at \<open>idx\<close>:
  the sum starts at zero and takes the operator's coefficients in their order, the \<open>k\<close>-th
  against the sample at position \<open>start + k * stride\<close>.
\<close>

definition SIP ::
  "slice \<Rightarrow> ('a::{zero,plus,times}, 'a) image \<Rightarrow> nat list \<Rightarrow> int list \<Rightarrow> 'a operator \<Rightarrow> 'a" where
  "SIP s img radius idx oper =
     foldl (\<lambda>sum (k, c). sum + c * GetPixel img radius idx (slice_start s + k * slice_stride s))
       0 (enumerate 0 (Coefficients oper))"

text \<open>
  Modelled from the spec: \<^verbatim>\<open>TransformLocalVectorToPhysicalVector\<close> is a method of the
  library's image class, which is not among the sources (section 4.5: the direction matrix
  times the vector).
\<close>

definition TransformLocalVectorToPhysicalVector ::
  "('a::{zero,plus,times}, 'p) image \<Rightarrow> 'a list \<Rightarrow> 'a list" where
  "TransformLocalVectorToPhysicalVector img v =
     map (\<lambda>i. foldl (\<lambda>sum j. sum + GetDirection img ! i ! j * v ! j) 0 [0..<ImageDimension img])
       [0..<ImageDimension img]"

section \<open>DynamicThreadedGenerateData\<close>

text \<open>Lines 178 to 181: the raw gradient at the sample \<open>idx\<close>.\<close>

definition gradient ::
  "nat list \<Rightarrow> 'a operator list \<Rightarrow> ('a::{zero,plus,times}, 'a) image \<Rightarrow> int list \<Rightarrow> 'a list" where
  "gradient radius ops inputImage idx =
     map (\<lambda>i. SIP (x_slice radius ops i) inputImage radius idx (ops ! i))
       [0..<ImageDimension inputImage]"

text \<open>Lines 183 to 190: the value stored at the sample \<open>idx\<close>.\<close>

definition Value ::
  "'a gradient_filter \<Rightarrow> nat list \<Rightarrow> 'a operator list \<Rightarrow> ('a::{zero,plus,times}, 'a) image \<Rightarrow> int list
     \<Rightarrow> 'a list" where
  "Value f radius ops inputImage idx =
     (if m_UseImageDirection f
      then TransformLocalVectorToPhysicalVector inputImage (gradient radius ops inputImage idx)
      else gradient radius ops inputImage idx)"

text \<open>Lines 171 to 193: one face, sample by sample.\<close>

definition ProcessFace ::
  "'a gradient_filter \<Rightarrow> nat list \<Rightarrow> 'a operator list \<Rightarrow> ('a::{zero,plus,times}, 'a) image
     \<Rightarrow> ('a, 'a list) image \<Rightarrow> region \<Rightarrow> ('a, 'a list) image" where
  "ProcessFace f radius ops inputImage outputImage fit =
     foldl (\<lambda>out idx. out\<lparr>Pixel := (Pixel out)(idx := Value f radius ops inputImage idx)\<rparr>)
       outputImage (region_indices fit)"

text \<open>Lines 142 to 147: the iterator's radius, on every axis that of \<^verbatim>\<open>op[0]\<close>.\<close>

definition iterator_radius :: "nat \<Rightarrow> 'a operator list \<Rightarrow> nat list" where
  "iterator_radius N ops = (case ops of [] \<Rightarrow> [] | op0 # _ \<Rightarrow> replicate N (GetRadius op0))"

text \<open>
  Lines 95 to 195. The result is the exception thrown, if any, and the filter as the call
  leaves it.
\<close>

definition DynamicThreadedGenerateData ::
  "(nat \<Rightarrow> 'a operator) \<Rightarrow> 'a::{zero,one,plus,times,inverse} gradient_filter \<Rightarrow> region
     \<Rightarrow> error option \<times> 'a gradient_filter" where
  "DynamicThreadedGenerateData CreateDirectional f outputRegionForThread =
     (case (GetOutput f, GetInput f) of
        (Some outputImage, Some inputImage) \<Rightarrow>
          (case SetUpOperators CreateDirectional f inputImage [0..<ImageDimension inputImage] of
             Inl e \<Rightarrow> (Some e, f)
           | Inr ops \<Rightarrow>
               (let radius = iterator_radius (ImageDimension inputImage) ops;
                    faceList = ImageBoundaryFacesCalculator inputImage outputRegionForThread radius
                in (None,
                    f\<lparr>GetOutput :=
                        Some (foldl (\<lambda>out fit. ProcessFace f radius ops inputImage out (FaceRegion fit))
                                outputImage faceList)\<rparr>)))
      | _ \<Rightarrow> (Some NullPointer, f))"

text \<open>Two calls in sequence: an exception of the first ends the sequence.\<close>

definition and_then ::
  "error option \<times> 'a gradient_filter \<Rightarrow> ('a gradient_filter \<Rightarrow> error option \<times> 'a gradient_filter)
     \<Rightarrow> error option \<times> 'a gradient_filter" where
  "and_then r g = (case r of (Some e, f) \<Rightarrow> (Some e, f) | (None, f) \<Rightarrow> g f)"

section \<open>Floating-point values\<close>

text \<open>
  The pixel, spacing and coefficient type of the filter is a floating-point type, and a
  floating-point value need not be a number. What the statements on the direction matrix
  depend on is how a value meets zero and one: a value is a number, taken here without
  rounding, or NaN, and an operation with a NaN operand yields NaN, a product with zero
  included. The infinities, which a product with zero turns into NaN, and the sign of zero
  are left out; a quotient by zero, which line 131 of the source rules out before it
  divides, is NaN.
\<close>

datatype floating = Finite real | NaN

instantiation floating :: "{zero,one,plus,times,inverse}"
begin

definition zero_floating :: floating where
  "zero_floating = Finite 0"

definition one_floating :: floating where
  "one_floating = Finite 1"

definition plus_floating :: "floating \<Rightarrow> floating \<Rightarrow> floating" where
  "plus_floating x y = (case (x, y) of (Finite a, Finite b) \<Rightarrow> Finite (a + b) | _ \<Rightarrow> NaN)"

definition times_floating :: "floating \<Rightarrow> floating \<Rightarrow> floating" where
  "times_floating x y = (case (x, y) of (Finite a, Finite b) \<Rightarrow> Finite (a * b) | _ \<Rightarrow> NaN)"

definition inverse_floating :: "floating \<Rightarrow> floating" where
  "inverse_floating x =
     (case x of Finite a \<Rightarrow> (if a = 0 then NaN else Finite (inverse a)) | NaN \<Rightarrow> NaN)"

definition divide_floating :: "floating \<Rightarrow> floating \<Rightarrow> floating" where
  "divide_floating x y =
     (case (x, y) of (Finite a, Finite b) \<Rightarrow> (if b = 0 then NaN else Finite (a / b)) | _ \<Rightarrow> NaN)"

instance ..

end

section \<open>Notions used in the statements\<close>

text \<open>
  The laws of zero and one that a product with the identity matrix relies on, for one value
  \<open>x\<close>. Nothing is assumed of the arithmetic: the laws are hypotheses on the values that
  occur. A number obeys them, NaN does not.
\<close>

definition unit_laws :: "'a::{zero,one,plus,times} \<Rightarrow> bool" where
  "unit_laws x = (0 * x = 0 \<and> 1 * x = x \<and> 0 + x = x \<and> x + 0 = x)"

text \<open>The identity matrix of dimension \<open>N\<close>, by rows.\<close>

definition identity_matrix :: "nat \<Rightarrow> 'a::{zero,one} list list" where
  "identity_matrix N = map (\<lambda>i. map (\<lambda>j. if i = j then 1 else 0) [0..<N]) [0..<N]"

text \<open>Positions of the neighbourhood buffer as numbers written in base \<open>w = 2 r + 1\<close>.\<close>

fun positional :: "nat \<Rightarrow> nat list \<Rightarrow> nat" where
  "positional w [] = 0"
| "positional w (d # ds) = d + w * positional w ds"

section \<open>Concrete inputs\<close>

text \<open>
  A two-dimensional image of five by four samples, an output image of the same extent that
  requests the two by two block at index \<open>(1, 1)\<close>, a filter with the header's defaults
  connected to both, and a stand-in for the operator's constructor: the three-point central
  difference, whatever the order of accuracy.
\<close>

definition example_operator :: "nat \<Rightarrow> real operator" where
  "example_operator m = \<lparr>GetRadius = 1, Coefficients = [1 / 2, 0, - 1 / 2]\<rparr>"

definition example_region :: region where
  "example_region = \<lparr>GetIndex = [0, 0], GetSize = [5, 4]\<rparr>"

definition example_input :: "(real, real) image" where
  "example_input =
     \<lparr>ImageDimension = 2, GetSpacing = [2, 1 / 2], GetDirection = [[0, - 1], [1, 0]],
      GetLargestPossibleRegion = example_region, GetRequestedRegion = example_region,
      GetBufferedRegion = example_region,
      Pixel = (\<lambda>idx. case idx of [x, y] \<Rightarrow> real_of_int x * real_of_int x + 3 * real_of_int y
                   | _ \<Rightarrow> 0)\<rparr>"

definition example_output :: "(real, real list) image" where
  "example_output =
     \<lparr>ImageDimension = 2, GetSpacing = [2, 1 / 2], GetDirection = [[0, - 1], [1, 0]],
      GetLargestPossibleRegion = example_region,
      GetRequestedRegion = \<lparr>GetIndex = [1, 1], GetSize = [2, 2]\<rparr>,
      GetBufferedRegion = example_region,
      Pixel = (\<lambda>idx. [])\<rparr>"

definition example_filter :: "real gradient_filter" where
  "example_filter =
     \<lparr>m_UseImageSpacing = True, m_UseImageDirection = True, m_OrderOfAccuracy = 2,
      GetInput = Some example_input, GetOutput = Some example_output\<rparr>"

text \<open>The same filter whose output requests a block beyond the input's largest region.\<close>

definition far_output :: "(real, real list) image" where
  "far_output = example_output\<lparr>GetRequestedRegion := \<lparr>GetIndex = [10, 0], GetSize = [2, 2]\<rparr>\<rparr>"

definition far_filter :: "real gradient_filter" where
  "far_filter = example_filter\<lparr>GetOutput := Some far_output\<rparr>"

text \<open>The same filter whose output requests the two by two block in the corner of the image.\<close>

definition border_output :: "(real, real list) image" where
  "border_output = example_output\<lparr>GetRequestedRegion := \<lparr>GetIndex = [0, 0], GetSize = [2, 2]\<rparr>\<rparr>"

definition border_filter :: "real gradient_filter" where
  "border_filter = example_filter\<lparr>GetOutput := Some border_output\<rparr>"

text \<open>The same filter with no input connected.\<close>

definition unconnected_filter :: "real gradient_filter" where
  "unconnected_filter = example_filter\<lparr>GetInput := None\<rparr>"

text \<open>A block of the example image that reaches its high edge on the first axis.\<close>

definition edge_region :: region where
  "edge_region = \<lparr>GetIndex = [1, 1], GetSize = [4, 2]\<rparr>"

text \<open>Two adjacent columns of the requested block, and the block itself.\<close>

definition left_block :: region where "left_block = \<lparr>GetIndex = [1, 1], GetSize = [1, 2]\<rparr>"

definition right_block :: region where "right_block = \<lparr>GetIndex = [2, 1], GetSize = [1, 2]\<rparr>"

definition whole_block :: region where "whole_block = \<lparr>GetIndex = [1, 1], GetSize = [2, 2]\<rparr>"

text \<open>
  The example image with a zero spacing on the second axis and with a negative spacing on
  the first, and the filters connected to them; \<open>unspaced_filter\<close> has spacing switched off.
\<close>

definition zero_input :: "(real, real) image" where
  "zero_input = example_input\<lparr>GetSpacing := [2, 0]\<rparr>"

definition zero_filter :: "real gradient_filter" where
  "zero_filter = example_filter\<lparr>GetInput := Some zero_input\<rparr>"

definition unspaced_filter :: "real gradient_filter" where
  "unspaced_filter = zero_filter\<lparr>m_UseImageSpacing := False\<rparr>"

definition negative_input :: "(real, real) image" where
  "negative_input = example_input\<lparr>GetSpacing := [- 1, 1 / 2]\<rparr>"

definition negative_filter :: "real gradient_filter" where
  "negative_filter = example_filter\<lparr>GetInput := Some negative_input\<rparr>"

text \<open>
  The example image, output image, filter and operator in floating-point values, with the
  identity as direction matrix; \<open>nan_input\<close> is the image with one sample that is NaN.
\<close>

definition floating_operator :: "nat \<Rightarrow> floating operator" where
  "floating_operator m =
     \<lparr>GetRadius = 1, Coefficients = [Finite (1 / 2), Finite 0, Finite (- 1 / 2)]\<rparr>"

definition floating_input :: "(floating, floating) image" where
  "floating_input =
     \<lparr>ImageDimension = 2, GetSpacing = [Finite 2, Finite (1 / 2)],
      GetDirection = [[Finite 1, Finite 0], [Finite 0, Finite 1]],
      GetLargestPossibleRegion = example_region, GetRequestedRegion = example_region,
      GetBufferedRegion = example_region,
      Pixel = (\<lambda>idx. case idx of
                 [x, y] \<Rightarrow> Finite (real_of_int x * real_of_int x + 3 * real_of_int y)
               | _ \<Rightarrow> Finite 0)\<rparr>"

definition floating_output :: "(floating, floating list) image" where
  "floating_output =
     \<lparr>ImageDimension = 2, GetSpacing = [Finite 2, Finite (1 / 2)],
      GetDirection = [[Finite 1, Finite 0], [Finite 0, Finite 1]],
      GetLargestPossibleRegion = example_region,
      GetRequestedRegion = \<lparr>GetIndex = [1, 1], GetSize = [2, 2]\<rparr>,
      GetBufferedRegion = example_region,
      Pixel = (\<lambda>idx. [])\<rparr>"

definition floating_filter :: "floating gradient_filter" where
  "floating_filter =
     \<lparr>m_UseImageSpacing = True, m_UseImageDirection = True, m_OrderOfAccuracy = 2,
      GetInput = Some floating_input, GetOutput = Some floating_output\<rparr>"

definition nan_input :: "(floating, floating) image" where
  "nan_input = floating_input\<lparr>Pixel := (Pixel floating_input)([2, 1] := NaN)\<rparr>"

definition nan_filter :: "floating gradient_filter" where
  "nan_filter = floating_filter\<lparr>GetInput := Some nan_input\<rparr>"

section \<open>Evaluating the concrete inputs\<close>

lemmas example_defs = example_operator_def example_region_def example_input_def
  example_output_def example_filter_def far_output_def far_filter_def border_output_def
  border_filter_def unconnected_filter_def

lemmas region_defs = PadByRadius_def Crop_def intervals_def region_of_def

lemmas block_defs = left_block_def right_block_def whole_block_def

lemmas iterator_defs = iterator_radius_def NeighborhoodSize_def GetStride_def GetOffset_def
  ZeroFluxNeumann_def GetPixel_def x_slice_def OperatorSize_def SIP_def gradient_def Value_def
  TransformLocalVectorToPhysicalVector_def intervals_def

lemma upt_0_2: "[0..<2] = [0, 1]"
  by (simp add: numeral_2_eq_2)

lemma example_operators:
  "SetUpOperators example_operator example_filter example_input [0..<ImageDimension example_input] =
     Inr [\<lparr>GetRadius = 1, Coefficients = [- 1 / 4, 0, 1 / 4]\<rparr>,
          \<lparr>GetRadius = 1, Coefficients = [- 1, 0, 1]\<rparr>]"
  by (simp add: example_defs SetUpOperator_def FlipAxes_def ScaleCoefficients_def upt_0_2)

lemma negative_operators:
  "SetUpOperators example_operator negative_filter negative_input [0..<ImageDimension negative_input] =
     Inr [\<lparr>GetRadius = 1, Coefficients = [1 / 2, 0, - 1 / 2]\<rparr>,
          \<lparr>GetRadius = 1, Coefficients = [- 1, 0, 1]\<rparr>]"
  by (simp add: negative_filter_def negative_input_def example_defs SetUpOperator_def FlipAxes_def
      ScaleCoefficients_def upt_0_2)

lemma negative_value:
  "Value negative_filter [1, 1]
     [\<lparr>GetRadius = 1, Coefficients = [1 / 2, 0, - 1 / 2]\<rparr>, \<lparr>GetRadius = 1, Coefficients = [- 1, 0, 1]\<rparr>]
     negative_input [1, 1] = [- 6, - 2]"
  by (simp add: negative_filter_def negative_input_def example_defs iterator_defs upt_0_2)

lemma floating_arith:
  "Finite a + Finite b = Finite (a + b)" "NaN + x = NaN" "x + NaN = NaN"
  "Finite a * Finite b = Finite (a * b)" "NaN * x = NaN" "x * NaN = NaN"
  "Finite a / Finite b = (if b = 0 then NaN else Finite (a / b))"
  "(0 :: floating) = Finite 0" "(1 :: floating) = Finite 1"
  by (simp_all add: plus_floating_def times_floating_def divide_floating_def zero_floating_def
      one_floating_def split: floating.splits)

lemmas floating_defs = floating_operator_def floating_input_def floating_output_def
  floating_filter_def nan_input_def nan_filter_def example_region_def

lemma floating_operators:
  "SetUpOperators floating_operator floating_filter floating_input [0..<ImageDimension floating_input] =
     Inr [\<lparr>GetRadius = 1, Coefficients = [Finite (- 1 / 4), Finite 0, Finite (1 / 4)]\<rparr>,
          \<lparr>GetRadius = 1, Coefficients = [Finite (- 1), Finite 0, Finite 1]\<rparr>]"
  by (simp add: floating_defs SetUpOperator_def FlipAxes_def ScaleCoefficients_def upt_0_2
      floating_arith)

lemma nan_operators:
  "SetUpOperators floating_operator nan_filter nan_input [0..<ImageDimension nan_input] =
     Inr [\<lparr>GetRadius = 1, Coefficients = [Finite (- 1 / 4), Finite 0, Finite (1 / 4)]\<rparr>,
          \<lparr>GetRadius = 1, Coefficients = [Finite (- 1), Finite 0, Finite 1]\<rparr>]"
  by (simp add: floating_defs SetUpOperator_def FlipAxes_def ScaleCoefficients_def upt_0_2
      floating_arith)

lemma floating_radius:
  "iterator_radius (ImageDimension floating_input)
      [\<lparr>GetRadius = 1, Coefficients = [Finite (- 1 / 4), Finite 0, Finite (1 / 4)]\<rparr>,
       \<lparr>GetRadius = 1, Coefficients = [Finite (- 1), Finite 0, Finite 1]\<rparr>] = [1, 1]"
  "iterator_radius (ImageDimension nan_input)
      [\<lparr>GetRadius = 1, Coefficients = [Finite (- 1 / 4), Finite 0, Finite (1 / 4)]\<rparr>,
       \<lparr>GetRadius = 1, Coefficients = [Finite (- 1), Finite 0, Finite 1]\<rparr>] = [1, 1]"
  by (simp_all add: floating_defs iterator_radius_def numeral_2_eq_2)

lemma whole_block_indices: "region_indices whole_block = [[1, 1], [2, 1], [1, 2], [2, 2]]"
  by (simp add: block_defs region_indices_def intervals_def numeral_2_eq_2)

lemma floating_gradients:
  "map (gradient [1, 1]
      [\<lparr>GetRadius = 1, Coefficients = [Finite (- 1 / 4), Finite 0, Finite (1 / 4)]\<rparr>,
       \<lparr>GetRadius = 1, Coefficients = [Finite (- 1), Finite 0, Finite 1]\<rparr>] floating_input)
     [[1, 1], [2, 1], [1, 2], [2, 2]] =
   [[Finite 1, Finite 6], [Finite 2, Finite 6], [Finite 1, Finite 6], [Finite 2, Finite 6]]"
  by (simp add: floating_defs iterator_defs upt_0_2 floating_arith)

lemma nan_gradient:
  "gradient [1, 1]
      [\<lparr>GetRadius = 1, Coefficients = [Finite (- 1 / 4), Finite 0, Finite (1 / 4)]\<rparr>,
       \<lparr>GetRadius = 1, Coefficients = [Finite (- 1), Finite 0, Finite 1]\<rparr>] nan_input [1, 1] =
   [NaN, Finite 6]"
  by (simp add: floating_defs iterator_defs upt_0_2 floating_arith)

lemma nan_transform: "TransformLocalVectorToPhysicalVector nan_input [NaN, Finite 6] = [NaN, NaN]"
  by (simp add: TransformLocalVectorToPhysicalVector_def nan_input_def floating_input_def upt_0_2
      floating_arith)

lemma floating_unit_laws: "unit_laws (Finite a)"
  by (simp add: unit_laws_def floating_arith)

section \<open>The requested input region\<close>

lemma Crop_fails_unchanged: "\<not> fst (Crop R bound) \<Longrightarrow> Crop R bound = (False, R)"
  by (simp add: Crop_def split: if_splits)

text \<open>
  C2. When both images are connected and the output's requested region, padded by the
  operator's radius, cannot be cropped to the input's largest possible region,
  \<open>GenerateInputRequestedRegion\<close> throws \<open>InvalidRequestedRegionError\<close>, and the requested
  region it has stored in the input by then is the padded region, uncropped. That is also
  the region the failed \<open>Crop\<close> leaves behind: a crop that fails truncates nothing.
\<close>

theorem GenerateInputRequestedRegion_crop_fails:
  assumes "GetInput f = Some inputPtr" and "GetOutput f = Some outputPtr"
    and "padded = PadByRadius (GetRadius (CreateDirectional (m_OrderOfAccuracy f)))
                    (GetRequestedRegion outputPtr)"
    and "\<not> fst (Crop padded (GetLargestPossibleRegion inputPtr))"
  shows "GenerateInputRequestedRegion CreateDirectional f =
           (Some (InvalidRequestedRegionError
              ''Requested region is (at least partially) outside the largest possible region.''),
            f\<lparr>GetInput := Some (inputPtr\<lparr>GetRequestedRegion := padded\<rparr>)\<rparr>)
         \<and> snd (Crop padded (GetLargestPossibleRegion inputPtr)) = padded"
  using assms Crop_fails_unchanged[of padded "GetLargestPossibleRegion inputPtr"]
  by (simp add: GenerateInputRequestedRegion_def Superclass_GenerateInputRequestedRegion_def Let_def)

theorem GenerateInputRequestedRegion_crop_fails_witness:
  "GetInput far_filter = Some example_input \<and> GetOutput far_filter = Some far_output
   \<and> \<lparr>GetIndex = [9, - 1], GetSize = [4, 4]\<rparr>
       = PadByRadius (GetRadius (example_operator (m_OrderOfAccuracy far_filter)))
           (GetRequestedRegion far_output)
   \<and> \<not> fst (Crop \<lparr>GetIndex = [9, - 1], GetSize = [4, 4]\<rparr> (GetLargestPossibleRegion example_input))
   \<and> GenerateInputRequestedRegion example_operator far_filter =
           (Some (InvalidRequestedRegionError
              ''Requested region is (at least partially) outside the largest possible region.''),
            far_filter\<lparr>GetInput :=
              Some (example_input\<lparr>GetRequestedRegion := \<lparr>GetIndex = [9, - 1], GetSize = [4, 4]\<rparr>\<rparr>)\<rparr>)"
proof -
  have 1: "GetInput far_filter = Some example_input" by (simp add: example_defs)
  have 2: "GetOutput far_filter = Some far_output" by (simp add: example_defs)
  have 3: "\<lparr>GetIndex = [9, - 1], GetSize = [4, 4]\<rparr>
       = PadByRadius (GetRadius (example_operator (m_OrderOfAccuracy far_filter)))
           (GetRequestedRegion far_output)" by (simp add: example_defs region_defs)
  have 4: "\<not> fst (Crop \<lparr>GetIndex = [9, - 1], GetSize = [4, 4]\<rparr> (GetLargestPossibleRegion example_input))"
    by (simp add: example_defs region_defs)
  from GenerateInputRequestedRegion_crop_fails[where CreateDirectional = example_operator, OF 1 2 3 4] 1 2 3 4
  show ?thesis by simp
qed

text \<open>
  C5. When both images are connected and the crop succeeds, \<open>GenerateInputRequestedRegion\<close>
  throws nothing and sets the input's requested region to the output's requested region,
  padded by the radius of the operator built for the configured order of accuracy and
  cropped to the input's largest possible region. When the input or the output is absent it
  returns at once: no exception, and the filter is as it was.
\<close>

theorem GenerateInputRequestedRegion_crop_succeeds:
  "(GetInput f = Some inputPtr \<and> GetOutput f = Some outputPtr
      \<and> fst (Crop (PadByRadius (GetRadius (CreateDirectional (m_OrderOfAccuracy f)))
                     (GetRequestedRegion outputPtr)) (GetLargestPossibleRegion inputPtr))
    \<longrightarrow> GenerateInputRequestedRegion CreateDirectional f =
          (None, f\<lparr>GetInput := Some (inputPtr\<lparr>GetRequestedRegion :=
             snd (Crop (PadByRadius (GetRadius (CreateDirectional (m_OrderOfAccuracy f)))
                     (GetRequestedRegion outputPtr)) (GetLargestPossibleRegion inputPtr))\<rparr>)\<rparr>))
   \<and> (GetInput f = None \<or> GetOutput f = None
    \<longrightarrow> GenerateInputRequestedRegion CreateDirectional f = (None, f))"
  by (auto simp add: GenerateInputRequestedRegion_def Superclass_GenerateInputRequestedRegion_def Let_def
       split: prod.splits option.splits)

theorem GenerateInputRequestedRegion_crop_succeeds_witness:
  "GetInput border_filter = Some example_input \<and> GetOutput border_filter = Some border_output
   \<and> PadByRadius (GetRadius (example_operator (m_OrderOfAccuracy border_filter)))
         (GetRequestedRegion border_output) = \<lparr>GetIndex = [- 1, - 1], GetSize = [4, 4]\<rparr>
   \<and> Crop (PadByRadius (GetRadius (example_operator (m_OrderOfAccuracy border_filter)))
             (GetRequestedRegion border_output)) (GetLargestPossibleRegion example_input)
       = (True, \<lparr>GetIndex = [0, 0], GetSize = [3, 3]\<rparr>)
   \<and> GenerateInputRequestedRegion example_operator border_filter =
          (None, border_filter\<lparr>GetInput :=
             Some (example_input\<lparr>GetRequestedRegion := \<lparr>GetIndex = [0, 0], GetSize = [3, 3]\<rparr>\<rparr>)\<rparr>)
   \<and> GetInput unconnected_filter = None
   \<and> GenerateInputRequestedRegion example_operator unconnected_filter = (None, unconnected_filter)"
proof -
  have 1: "GetInput border_filter = Some example_input \<and> GetOutput border_filter = Some border_output"
    by (simp add: border_filter_def example_filter_def)
  have 2: "PadByRadius (GetRadius (example_operator (m_OrderOfAccuracy border_filter)))
         (GetRequestedRegion border_output) = \<lparr>GetIndex = [- 1, - 1], GetSize = [4, 4]\<rparr>"
    by (simp add: example_defs region_defs)
  have 3: "Crop (PadByRadius (GetRadius (example_operator (m_OrderOfAccuracy border_filter)))
             (GetRequestedRegion border_output)) (GetLargestPossibleRegion example_input)
       = (True, \<lparr>GetIndex = [0, 0], GetSize = [3, 3]\<rparr>)"
    by (simp add: example_defs region_defs)
  have 4: "GetInput unconnected_filter = None" by (simp add: unconnected_filter_def)
  from GenerateInputRequestedRegion_crop_succeeds[of border_filter example_input border_output example_operator]
    GenerateInputRequestedRegion_crop_succeeds[of unconnected_filter example_input example_output example_operator]
    1 2 3 4
  show ?thesis by simp
qed

section \<open>The boundary faces partition the region\<close>

lemma intervals_region_of: "intervals (region_of ivs) = ivs"
  by (simp add: intervals_def region_of_def zip_map_fst_snd)

lemma region_indices_region_of: "region_indices (region_of ivs) = indices_of ivs"
  by (simp add: region_indices_def intervals_region_of)

lemma mset_concat_map: "mset (concat (map g xs)) = (\<Sum>x\<in>#mset xs. mset (g x))"
  by (induction xs) simp_all

lemma mset_concat_map_append:
  "mset (concat (map (\<lambda>x. g x @ h x) xs)) = mset (concat (map g xs)) + mset (concat (map h xs))"
  by (induction xs) simp_all

lemma upt_split: "[0..<a + b] = [0..<a] @ map (\<lambda>k. a + k) [0..<b]"
proof -
  have "[0..<a + b] = [0..<a] @ [a..<a + b]"
    by (metis le_add1 upt_add_eq_append zero_le)
  moreover have "[a..<a + b] = map (\<lambda>k. a + k) [0..<b]"
    by (induction b) simp_all
  ultimately show ?thesis by simp
qed

lemma mset_indices_of_split:
  "mset (indices_of ((s, a + b) # ivs)) =
     mset (indices_of ((s, a) # ivs)) + mset (indices_of ((s + int a, b) # ivs))"
proof -
  have "indices_of ((s, a + b) # ivs) =
      concat (map (\<lambda>rest. map (\<lambda>k. (s + int k) # rest) [0..<a]
                          @ map (\<lambda>k. (s + int a + int k) # rest) [0..<b]) (indices_of ivs))"
    by (simp add: upt_split comp_def add.assoc)
  then show ?thesis
    by (simp add: mset_concat_map_append)
qed

lemma mset_indices_of_Cons:
  "mset (indices_of (iv # ivs)) =
     (\<Sum>rest\<in>#mset (indices_of ivs). mset (map (\<lambda>k. (fst iv + int k) # rest) [0..<snd iv]))"
  by (cases iv) (simp add: mset_concat_map)

lemma BoundaryFaces_mset:
  "BoundaryFaces vr bs rs = (faces, nb) \<Longrightarrow>
     mset (indices_of nb) + (\<Sum>F\<leftarrow>faces. mset (indices_of F)) = mset (indices_of vr)"
proof (induction vr bs rs arbitrary: faces nb rule: BoundaryFaces.induct)
  case (1 s n vr b m bs r rs)
  define lo where "lo = nat (min (s + int n) (b + int r) - s)"
  define s1 where "s1 = s + int lo"
  define n1 where "n1 = n - lo"
  define hi where "hi = nat (s1 + int n1 - max s1 (b + int m - int r))"
  obtain faces' nb' where rec: "BoundaryFaces vr bs rs = (faces', nb')"
    by (cases "BoundaryFaces vr bs rs")
  have IH: "mset (indices_of nb') + (\<Sum>F\<leftarrow>faces'. mset (indices_of F)) = mset (indices_of vr)"
    using "1.IH"[OF lo_def s1_def n1_def hi_def refl rec] .
  have "BoundaryFaces ((s, n) # vr) ((b, m) # bs) (r # rs) =
      (((s, lo) # vr) # ((s1 + int (n1 - hi), hi) # vr) # map (\<lambda>F. (s1, n1 - hi) # F) faces',
       (s1, n1 - hi) # nb')"
    unfolding lo_def s1_def n1_def hi_def
    by (simp only: BoundaryFaces.simps Let_def rec prod.case)
  with "1.prems" have faces:
      "faces = ((s, lo) # vr) # ((s1 + int (n1 - hi), hi) # vr) # map (\<lambda>F. (s1, n1 - hi) # F) faces'"
    and nb: "nb = (s1, n1 - hi) # nb'"
    by simp_all
  have lo: "lo \<le> n" by (simp add: lo_def)
  have hi: "hi \<le> n1" by (simp add: hi_def)
  have n: "n = lo + ((n1 - hi) + hi)" using lo hi by (simp add: n1_def)
  have split: "mset (indices_of ((s, n) # vr)) =
      mset (indices_of ((s, lo) # vr)) + (mset (indices_of ((s1, n1 - hi) # vr))
        + mset (indices_of ((s1 + int (n1 - hi), hi) # vr)))"
    by (subst n, subst mset_indices_of_split, subst mset_indices_of_split)
      (simp add: s1_def del: indices_of.simps)
  have mid: "mset (indices_of ((s1, n1 - hi) # vr)) =
      mset (indices_of ((s1, n1 - hi) # nb')) + (\<Sum>F\<leftarrow>faces'. mset (indices_of ((s1, n1 - hi) # F)))"
  proof -
    have "(\<Sum>F\<leftarrow>faces'. mset (indices_of ((s1, n1 - hi) # F))) =
        (\<Sum>rest\<in>#(\<Sum>F\<leftarrow>faces'. mset (indices_of F)). mset (map (\<lambda>k. (s1 + int k) # rest) [0..<n1 - hi]))"
      by (induction faces') (simp_all add: mset_indices_of_Cons del: indices_of.simps)
    then show ?thesis
      by (simp add: mset_indices_of_Cons[of "(s1, n1 - hi)"] IH[symmetric] del: indices_of.simps)
  qed
  show ?case
    by (simp add: faces nb split mid comp_def del: indices_of.simps)
qed simp_all

lemma distinct_indices_of: "distinct (indices_of ivs)"
proof (induction ivs)
  case Nil
  show ?case by simp
next
  case (Cons iv ivs)
  obtain s n where iv: "iv = (s, n)" by (cases iv)
  have "distinct L \<Longrightarrow> distinct (concat (map (\<lambda>rest. map (\<lambda>k. (s + int k) # rest) [0..<n]) L))" for L
  proof (induction L)
    case Nil
    show ?case by simp
  next
    case (Cons a L)
    have "distinct (map (\<lambda>k. (s + int k) # a) [0..<n])"
      by (simp add: distinct_map inj_on_def)
    with Cons show ?case by auto
  qed
  with Cons show ?case by (simp add: iv)
qed

lemma in_indices_of_Cons:
  "x \<in> set (indices_of ((s, n) # ivs)) \<longleftrightarrow>
     (\<exists>h t. x = h # t \<and> s \<le> h \<and> h < s + int n \<and> t \<in> set (indices_of ivs))"
proof
  assume "x \<in> set (indices_of ((s, n) # ivs))"
  then show "\<exists>h t. x = h # t \<and> s \<le> h \<and> h < s + int n \<and> t \<in> set (indices_of ivs)"
    by auto
next
  assume "\<exists>h t. x = h # t \<and> s \<le> h \<and> h < s + int n \<and> t \<in> set (indices_of ivs)"
  then obtain h t where x: "x = h # t" and h: "s \<le> h" "h < s + int n"
    and t: "t \<in> set (indices_of ivs)" by blast
  have "nat (h - s) < n" and "h = s + int (nat (h - s))" using h by auto
  with t x show "x \<in> set (indices_of ((s, n) # ivs))"
    by (auto intro!: bexI[of _ t] image_eqI[of _ _ "nat (h - s)"])
qed

lemma in_indices_of_length: "x \<in> set (indices_of ivs) \<Longrightarrow> length x = length ivs"
proof (induction ivs arbitrary: x)
  case Nil
  then show ?case by simp
next
  case (Cons iv ivs)
  obtain s n where iv: "iv = (s, n)" by (cases iv)
  from Cons.prems obtain h t where "x = h # t" "t \<in> set (indices_of ivs)"
    unfolding iv in_indices_of_Cons by blast
  with Cons.IH show ?case by simp
qed

lemma region_indices_length:
  "wf_region N R \<Longrightarrow> idx \<in> set (region_indices R) \<Longrightarrow> length idx = N"
  by (auto simp add: region_indices_def wf_region_def intervals_def dest: in_indices_of_length)

lemma BoundaryFaces_interior:
  "BoundaryFaces vr bs rs = (faces, nb) \<Longrightarrow> length vr = length bs \<Longrightarrow> length bs = length rs \<Longrightarrow>
   x \<in> set (indices_of nb) \<Longrightarrow>
   list_all (\<lambda>(x, (b, m), r). b \<le> x - int r \<and> x + int r < b + int m) (zip x (zip bs rs))"
proof (induction vr bs rs arbitrary: faces nb x rule: BoundaryFaces.induct)
  case (1 s n vr b m bs r rs)
  define lo where "lo = nat (min (s + int n) (b + int r) - s)"
  define s1 where "s1 = s + int lo"
  define n1 where "n1 = n - lo"
  define hi where "hi = nat (s1 + int n1 - max s1 (b + int m - int r))"
  obtain faces' nb' where rec: "BoundaryFaces vr bs rs = (faces', nb')"
    by (cases "BoundaryFaces vr bs rs")
  have "BoundaryFaces ((s, n) # vr) ((b, m) # bs) (r # rs) =
      (((s, lo) # vr) # ((s1 + int (n1 - hi), hi) # vr) # map (\<lambda>F. (s1, n1 - hi) # F) faces',
       (s1, n1 - hi) # nb')"
    unfolding lo_def s1_def n1_def hi_def
    by (simp only: BoundaryFaces.simps Let_def rec prod.case)
  with "1.prems"(1) have nb: "nb = (s1, n1 - hi) # nb'" by simp
  from "1.prems"(4) obtain h t where x: "x = h # t" and h: "s1 \<le> h" "h < s1 + int (n1 - hi)"
    and t: "t \<in> set (indices_of nb')"
    unfolding nb in_indices_of_Cons by blast
  have tail: "list_all (\<lambda>(x, (b, m), r). b \<le> x - int r \<and> x + int r < b + int m) (zip t (zip bs rs))"
    using "1.IH"[OF lo_def s1_def n1_def hi_def refl rec _ _ t] "1.prems"(2,3) by simp
  have "b \<le> h - int r \<and> h + int r < b + int m"
    using h unfolding hi_def n1_def s1_def lo_def by (auto split: if_splits simp: min_def max_def)
  with tail show ?case by (simp add: x)
qed auto

lemma BoundaryFaces_boundary:
  "BoundaryFaces vr bs rs = (faces, nb) \<Longrightarrow> F \<in> set faces \<Longrightarrow> x \<in> set (indices_of F) \<Longrightarrow>
   \<not> list_all (\<lambda>(x, (b, m), r). b \<le> x - int r \<and> x + int r < b + int m) (zip x (zip bs rs))"
proof (induction vr bs rs arbitrary: faces nb x F rule: BoundaryFaces.induct)
  case (1 s n vr b m bs r rs)
  define lo where "lo = nat (min (s + int n) (b + int r) - s)"
  define s1 where "s1 = s + int lo"
  define n1 where "n1 = n - lo"
  define hi where "hi = nat (s1 + int n1 - max s1 (b + int m - int r))"
  obtain faces' nb' where rec: "BoundaryFaces vr bs rs = (faces', nb')"
    by (cases "BoundaryFaces vr bs rs")
  have "BoundaryFaces ((s, n) # vr) ((b, m) # bs) (r # rs) =
      (((s, lo) # vr) # ((s1 + int (n1 - hi), hi) # vr) # map (\<lambda>F. (s1, n1 - hi) # F) faces',
       (s1, n1 - hi) # nb')"
    unfolding lo_def s1_def n1_def hi_def
    by (simp only: BoundaryFaces.simps Let_def rec prod.case)
  with "1.prems"(1) have
    faces: "faces = ((s, lo) # vr) # ((s1 + int (n1 - hi), hi) # vr) # map (\<lambda>F. (s1, n1 - hi) # F) faces'"
    by simp
  from "1.prems"(2) consider (low) "F = (s, lo) # vr" | (high) "F = (s1 + int (n1 - hi), hi) # vr"
    | (later) F' where "F = (s1, n1 - hi) # F'" "F' \<in> set faces'"
    unfolding faces by auto
  then show ?case
  proof cases
    case low
    from "1.prems"(3) obtain h t where x: "x = h # t" and h: "s \<le> h" "h < s + int lo"
      unfolding low in_indices_of_Cons by blast
    have "h < b + int r" using h unfolding lo_def by (auto split: if_splits simp: min_def)
    then show ?thesis by (simp add: x)
  next
    case high
    from "1.prems"(3) obtain h t where x: "x = h # t"
      and h: "s1 + int (n1 - hi) \<le> h" "h < s1 + int (n1 - hi) + int hi"
      unfolding high in_indices_of_Cons by blast
    have "b + int m \<le> h + int r" using h unfolding hi_def
      by (auto split: if_splits simp: max_def)
    then show ?thesis by (simp add: x)
  next
    case later
    from "1.prems"(3) obtain h t where x: "x = h # t" and t: "t \<in> set (indices_of F')"
      unfolding later(1) in_indices_of_Cons by blast
    from "1.IH"[OF lo_def s1_def n1_def hi_def refl rec later(2) t] show ?thesis
      by (simp add: x)
  qed
qed auto

lemma faces_indices_mset:
  "mset (concat (map (\<lambda>F. region_indices (FaceRegion F))
           (ImageBoundaryFacesCalculator img regionToProcess radius))) =
   mset (region_indices regionToProcess)"
proof -
  obtain faces nb where rec:
    "BoundaryFaces (intervals regionToProcess) (intervals (GetBufferedRegion img)) radius = (faces, nb)"
    by (cases "BoundaryFaces (intervals regionToProcess) (intervals (GetBufferedRegion img)) radius")
  have "mset (concat (map indices_of faces)) = (\<Sum>F\<leftarrow>faces. mset (indices_of F))"
    by (simp add: mset_concat comp_def)
  with BoundaryFaces_mset[OF rec] show ?thesis
    by (simp add: ImageBoundaryFacesCalculator_def rec region_indices_region_of comp_def
        region_indices_def[of regionToProcess])
qed

lemma faces_indices_set:
  "(\<Union>F\<in>set (ImageBoundaryFacesCalculator img regionToProcess radius).
      set (region_indices (FaceRegion F))) = set (region_indices regionToProcess)"
proof -
  have "set_mset (mset (concat (map (\<lambda>F. region_indices (FaceRegion F))
           (ImageBoundaryFacesCalculator img regionToProcess radius)))) =
        set_mset (mset (region_indices regionToProcess))"
    by (simp only: faces_indices_mset)
  then show ?thesis by simp
qed

text \<open>
  C1. For every region to process and every radius, the faces of the decomposition are an
  exact partition of the region: listing the indices of all faces one after the other
  repeats no index (no overlaps) and gives exactly the indices of the region (no gaps).
  When the region, the buffered region and the radius have the image's dimension, the flag
  of a face tells, for each of its indices, whether the whole neighbourhood of that radius
  lies inside the buffered region (interior) or some axis comes within the radius of an
  edge (boundary).
\<close>

theorem ImageBoundaryFacesCalculator_partition:
  "distinct (concat (map (\<lambda>F. region_indices (FaceRegion F))
               (ImageBoundaryFacesCalculator img regionToProcess radius)))
   \<and> set (concat (map (\<lambda>F. region_indices (FaceRegion F))
               (ImageBoundaryFacesCalculator img regionToProcess radius)))
       = set (region_indices regionToProcess)
   \<and> (wf_region N regionToProcess \<and> wf_region N (GetBufferedRegion img) \<and> length radius = N
        \<longrightarrow> (\<forall>F \<in> set (ImageBoundaryFacesCalculator img regionToProcess radius).
               \<forall>idx \<in> set (region_indices (FaceRegion F)).
                 IsInterior F = neighborhood_in_bounds (GetBufferedRegion img) radius idx))"
proof (intro conjI impI ballI)
  show "distinct (concat (map (\<lambda>F. region_indices (FaceRegion F))
               (ImageBoundaryFacesCalculator img regionToProcess radius)))"
    using mset_eq_imp_distinct_iff[OF faces_indices_mset[of img regionToProcess radius]]
    by (simp add: region_indices_def distinct_indices_of)
  show "set (concat (map (\<lambda>F. region_indices (FaceRegion F))
               (ImageBoundaryFacesCalculator img regionToProcess radius)))
       = set (region_indices regionToProcess)"
    using faces_indices_set[of img regionToProcess radius] by simp
next
  fix F idx
  assume wf: "wf_region N regionToProcess \<and> wf_region N (GetBufferedRegion img) \<and> length radius = N"
    and F: "F \<in> set (ImageBoundaryFacesCalculator img regionToProcess radius)"
    and idx: "idx \<in> set (region_indices (FaceRegion F))"
  obtain faces nb where rec:
    "BoundaryFaces (intervals regionToProcess) (intervals (GetBufferedRegion img)) radius = (faces, nb)"
    by (cases "BoundaryFaces (intervals regionToProcess) (intervals (GetBufferedRegion img)) radius")
  from wf have len: "length (intervals regionToProcess) = length (intervals (GetBufferedRegion img))"
      "length (intervals (GetBufferedRegion img)) = length radius"
    by (simp_all add: wf_region_def intervals_def)
  from F consider (interior) "F = \<lparr>FaceRegion = region_of nb, IsInterior = True\<rparr>"
    | (boundary) G where "G \<in> set faces" "F = \<lparr>FaceRegion = region_of G, IsInterior = False\<rparr>"
    by (auto simp add: ImageBoundaryFacesCalculator_def rec)
  then show "IsInterior F = neighborhood_in_bounds (GetBufferedRegion img) radius idx"
  proof cases
    case interior
    with idx have "idx \<in> set (indices_of nb)" by (simp add: region_indices_region_of)
    from BoundaryFaces_interior[OF rec len this] interior show ?thesis
      by (simp add: neighborhood_in_bounds_def)
  next
    case boundary
    with idx have "idx \<in> set (indices_of G)" by (simp add: region_indices_region_of)
    from BoundaryFaces_boundary[OF rec boundary(1) this] boundary(2) show ?thesis
      by (simp add: neighborhood_in_bounds_def)
  qed
qed

theorem ImageBoundaryFacesCalculator_partition_witness:
  "wf_region 2 edge_region \<and> wf_region 2 (GetBufferedRegion example_input) \<and> length [1, 1 :: nat] = 2
   \<and> ImageBoundaryFacesCalculator example_input edge_region [1, 1] =
       [\<lparr>FaceRegion = \<lparr>GetIndex = [1, 1], GetSize = [3, 2]\<rparr>, IsInterior = True\<rparr>,
        \<lparr>FaceRegion = \<lparr>GetIndex = [1, 1], GetSize = [0, 2]\<rparr>, IsInterior = False\<rparr>,
        \<lparr>FaceRegion = \<lparr>GetIndex = [4, 1], GetSize = [1, 2]\<rparr>, IsInterior = False\<rparr>,
        \<lparr>FaceRegion = \<lparr>GetIndex = [1, 1], GetSize = [3, 0]\<rparr>, IsInterior = False\<rparr>,
        \<lparr>FaceRegion = \<lparr>GetIndex = [1, 3], GetSize = [3, 0]\<rparr>, IsInterior = False\<rparr>]
   \<and> distinct (concat (map (\<lambda>F. region_indices (FaceRegion F))
               (ImageBoundaryFacesCalculator example_input edge_region [1, 1])))
   \<and> set (concat (map (\<lambda>F. region_indices (FaceRegion F))
               (ImageBoundaryFacesCalculator example_input edge_region [1, 1])))
       = set (region_indices edge_region)
   \<and> [2, 1] \<in> set (region_indices \<lparr>GetIndex = [1, 1], GetSize = [3, 2]\<rparr>)
   \<and> neighborhood_in_bounds (GetBufferedRegion example_input) [1, 1] [2, 1]
   \<and> [4, 2] \<in> set (region_indices \<lparr>GetIndex = [4, 1], GetSize = [1, 2]\<rparr>)
   \<and> \<not> neighborhood_in_bounds (GetBufferedRegion example_input) [1, 1] [4, 2]"
proof -
  note part = ImageBoundaryFacesCalculator_partition[of example_input edge_region "[1, 1]" 2]
  have wf: "wf_region 2 edge_region \<and> wf_region 2 (GetBufferedRegion example_input)
      \<and> length [1, 1 :: nat] = 2"
    by (simp add: wf_region_def edge_region_def example_defs)
  have faces: "ImageBoundaryFacesCalculator example_input edge_region [1, 1] =
       [\<lparr>FaceRegion = \<lparr>GetIndex = [1, 1], GetSize = [3, 2]\<rparr>, IsInterior = True\<rparr>,
        \<lparr>FaceRegion = \<lparr>GetIndex = [1, 1], GetSize = [0, 2]\<rparr>, IsInterior = False\<rparr>,
        \<lparr>FaceRegion = \<lparr>GetIndex = [4, 1], GetSize = [1, 2]\<rparr>, IsInterior = False\<rparr>,
        \<lparr>FaceRegion = \<lparr>GetIndex = [1, 1], GetSize = [3, 0]\<rparr>, IsInterior = False\<rparr>,
        \<lparr>FaceRegion = \<lparr>GetIndex = [1, 3], GetSize = [3, 0]\<rparr>, IsInterior = False\<rparr>]"
    by (simp add: ImageBoundaryFacesCalculator_def edge_region_def example_defs region_defs Let_def)
  have in1: "[2, 1] \<in> set (region_indices \<lparr>GetIndex = [1, 1], GetSize = [3, 2]\<rparr>)"
    by (simp add: region_indices_def intervals_def in_indices_of_Cons del: indices_of.simps(2))
  have in2: "[4, 2] \<in> set (region_indices \<lparr>GetIndex = [4, 1], GetSize = [1, 2]\<rparr>)"
    by (simp add: region_indices_def intervals_def in_indices_of_Cons del: indices_of.simps(2))
  from part wf have tags: "\<forall>F \<in> set (ImageBoundaryFacesCalculator example_input edge_region [1, 1]).
               \<forall>idx \<in> set (region_indices (FaceRegion F)).
                 IsInterior F = neighborhood_in_bounds (GetBufferedRegion example_input) [1, 1] idx"
    by blast
  have t1: "neighborhood_in_bounds (GetBufferedRegion example_input) [1, 1] [2, 1]"
    using tags[unfolded faces, THEN bspec, of "\<lparr>FaceRegion = \<lparr>GetIndex = [1, 1], GetSize = [3, 2]\<rparr>, IsInterior = True\<rparr>",
        THEN bspec, of "[2, 1]"] in1 by simp
  have t2: "\<not> neighborhood_in_bounds (GetBufferedRegion example_input) [1, 1] [4, 2]"
    using tags[unfolded faces, THEN bspec, of "\<lparr>FaceRegion = \<lparr>GetIndex = [4, 1], GetSize = [1, 2]\<rparr>, IsInterior = False\<rparr>",
        THEN bspec, of "[4, 2]"] in2 by simp
  from part wf faces in1 in2 t1 t2 show ?thesis by blast
qed

section \<open>What a call of DynamicThreadedGenerateData writes\<close>

lemma Pixel_update_cong: "p = q \<Longrightarrow> out\<lparr>Pixel := p\<rparr> = out\<lparr>Pixel := q\<rparr>"
  by simp

lemma write_samples:
  "foldl (\<lambda>out idx. out\<lparr>Pixel := (Pixel out)(idx := v idx)\<rparr>) out idxs =
     out\<lparr>Pixel := (\<lambda>x. if x \<in> set idxs then v x else Pixel out x)\<rparr>"
proof (induction idxs rule: rev_induct)
  case Nil
  show ?case by simp
next
  case (snoc a idxs)
  show ?case
    apply (simp only: foldl_append foldl.simps snoc)
    apply simp
    apply (rule Pixel_update_cong)
    apply (rule ext)
    apply simp
    done
qed

lemma ProcessFace_writes:
  "ProcessFace f radius ops inputImage out fit =
     out\<lparr>Pixel := (\<lambda>x. if x \<in> set (region_indices fit)
                         then Value f radius ops inputImage x else Pixel out x)\<rparr>"
  unfolding ProcessFace_def by (rule write_samples)

lemma ProcessFaces_writes:
  "foldl (\<lambda>out fit. ProcessFace f radius ops inputImage out (FaceRegion fit)) out faceList =
     out\<lparr>Pixel := (\<lambda>x. if \<exists>F\<in>set faceList. x \<in> set (region_indices (FaceRegion F))
                         then Value f radius ops inputImage x else Pixel out x)\<rparr>"
proof (induction faceList rule: rev_induct)
  case Nil
  show ?case by simp
next
  case (snoc F faceList)
  show ?case
    apply (simp only: foldl_append foldl.simps snoc)
    apply (simp only: ProcessFace_writes)
    apply simp
    apply (rule Pixel_update_cong)
    apply (rule ext)
    apply auto
    done
qed

lemma faces_indices_mem:
  "(\<exists>F\<in>set (ImageBoundaryFacesCalculator img regionToProcess radius).
      x \<in> set (region_indices (FaceRegion F))) \<longleftrightarrow> x \<in> set (region_indices regionToProcess)"
  using faces_indices_set[of img regionToProcess radius] by blast

lemma DynamicThreadedGenerateData_writes:
  assumes "GetOutput f = Some outputImage" and "GetInput f = Some inputImage"
    and "SetUpOperators CreateDirectional f inputImage [0..<ImageDimension inputImage] = Inr ops"
  shows "DynamicThreadedGenerateData CreateDirectional f outputRegionForThread =
     (None, f\<lparr>GetOutput := Some (outputImage\<lparr>Pixel :=
        (\<lambda>x. if x \<in> set (region_indices outputRegionForThread)
             then Value f (iterator_radius (ImageDimension inputImage) ops) ops inputImage x
             else Pixel outputImage x)\<rparr>)\<rparr>)"
  using assms
  by (simp add: DynamicThreadedGenerateData_def Let_def ProcessFaces_writes faces_indices_mem)

lemma DynamicThreadedGenerateData_throws:
  assumes "GetOutput f = Some outputImage" and "GetInput f = Some inputImage"
    and "SetUpOperators CreateDirectional f inputImage [0..<ImageDimension inputImage] = Inl e"
  shows "DynamicThreadedGenerateData CreateDirectional f outputRegionForThread = (Some e, f)"
  using assms by (simp add: DynamicThreadedGenerateData_def)

lemma DynamicThreadedGenerateData_null:
  assumes "GetOutput f = None \<or> GetInput f = None"
  shows "DynamicThreadedGenerateData CreateDirectional f outputRegionForThread = (Some NullPointer, f)"
  using assms by (auto simp add: DynamicThreadedGenerateData_def split: option.splits)

lemma SetUpOperators_cong:
  "m_UseImageSpacing f' = m_UseImageSpacing f \<Longrightarrow> m_OrderOfAccuracy f' = m_OrderOfAccuracy f \<Longrightarrow>
   SetUpOperators CreateDirectional f' inputImage axes = SetUpOperators CreateDirectional f inputImage axes"
proof (induction axes)
  case Nil
  show ?case by simp
next
  case (Cons i axes)
  have "SetUpOperator CreateDirectional f' inputImage i = SetUpOperator CreateDirectional f inputImage i"
    using Cons.prems by (simp add: SetUpOperator_def)
  with Cons show ?case by (simp only: SetUpOperators.simps)
qed

lemma SetUpOperators_GetOutput_update:
  "SetUpOperators CreateDirectional (f\<lparr>GetOutput := out\<rparr>) inputImage axes =
   SetUpOperators CreateDirectional f inputImage axes"
  by (rule SetUpOperators_cong) simp_all

lemma Value_GetOutput_update:
  "Value (f\<lparr>GetOutput := out\<rparr>) radius ops inputImage idx = Value f radius ops inputImage idx"
  by (simp add: Value_def)

text \<open>
  C7. For every filter and every two regions \<open>A\<close> and \<open>B\<close> whose indices together are those of
  a region \<open>U\<close> (in particular two disjoint regions and their union), running the
  per-region computation on \<open>A\<close> and then on \<open>B\<close> ends as running it once on \<open>U\<close> does:
  the same exception or none, and the same filter state, so the same value at every index
  of the output image.
\<close>

theorem DynamicThreadedGenerateData_union:
  assumes "set (region_indices U) = set (region_indices A) \<union> set (region_indices B)"
  shows "and_then (DynamicThreadedGenerateData CreateDirectional f A)
           (\<lambda>f'. DynamicThreadedGenerateData CreateDirectional f' B) =
         DynamicThreadedGenerateData CreateDirectional f U"
proof (cases "GetOutput f = None \<or> GetInput f = None")
  case True
  then show ?thesis by (simp add: DynamicThreadedGenerateData_null and_then_def)
next
  case False
  then obtain outputImage inputImage where io: "GetOutput f = Some outputImage" "GetInput f = Some inputImage"
    by auto
  show ?thesis
  proof (cases "SetUpOperators CreateDirectional f inputImage [0..<ImageDimension inputImage]")
    case (Inl e)
    then show ?thesis by (simp add: DynamicThreadedGenerateData_throws[OF io] and_then_def)
  next
    case (Inr ops)
    define v where "v = Value f (iterator_radius (ImageDimension inputImage) ops) ops inputImage"
    define outA where
      "outA = outputImage\<lparr>Pixel := (\<lambda>x. if x \<in> set (region_indices A) then v x else Pixel outputImage x)\<rparr>"
    define fA where "fA = f\<lparr>GetOutput := Some outA\<rparr>"
    have A: "DynamicThreadedGenerateData CreateDirectional f A = (None, fA)"
      unfolding fA_def outA_def v_def by (rule DynamicThreadedGenerateData_writes[OF io Inr])
    have ioA: "GetOutput fA = Some outA" "GetInput fA = Some inputImage"
      by (simp_all add: fA_def io)
    have opsA: "SetUpOperators CreateDirectional fA inputImage [0..<ImageDimension inputImage] = Inr ops"
      unfolding fA_def by (simp only: SetUpOperators_GetOutput_update Inr)
    have vA: "Value fA (iterator_radius (ImageDimension inputImage) ops) ops inputImage x = v x" for x
      unfolding fA_def v_def by (rule Value_GetOutput_update)
    have "(\<lambda>x. if x \<in> set (region_indices B) then v x else Pixel outA x) =
        (\<lambda>x. if x \<in> set (region_indices U) then v x else Pixel outputImage x)"
      by (rule ext) (simp add: assms outA_def)
    then have "outA\<lparr>Pixel := (\<lambda>x. if x \<in> set (region_indices B) then v x else Pixel outA x)\<rparr> =
        outputImage\<lparr>Pixel := (\<lambda>x. if x \<in> set (region_indices U) then v x else Pixel outputImage x)\<rparr>"
      by (simp add: outA_def)
    then have B: "DynamicThreadedGenerateData CreateDirectional fA B =
        (None, f\<lparr>GetOutput := Some (outputImage\<lparr>Pixel :=
            (\<lambda>x. if x \<in> set (region_indices U) then v x else Pixel outputImage x)\<rparr>)\<rparr>)"
      by (simp only: DynamicThreadedGenerateData_writes[OF ioA opsA] vA) (simp add: fA_def)
    show ?thesis
      unfolding and_then_def A
      by (simp only: prod.case option.case B DynamicThreadedGenerateData_writes[OF io Inr, of U] v_def)
  qed
qed

theorem DynamicThreadedGenerateData_union_witness:
  "set (region_indices whole_block) = set (region_indices left_block) \<union> set (region_indices right_block)
   \<and> and_then (DynamicThreadedGenerateData example_operator example_filter left_block)
           (\<lambda>f'. DynamicThreadedGenerateData example_operator f' right_block) =
         DynamicThreadedGenerateData example_operator example_filter whole_block
   \<and> fst (DynamicThreadedGenerateData example_operator example_filter whole_block) = None"
proof -
  have 1: "set (region_indices whole_block) = set (region_indices left_block) \<union> set (region_indices right_block)"
    by (auto simp add: block_defs region_indices_def intervals_def numeral_2_eq_2)
  have 2: "fst (DynamicThreadedGenerateData example_operator example_filter whole_block) = None"
    using DynamicThreadedGenerateData_writes[of example_filter example_output example_input, OF _ _ example_operators]
    by (simp add: example_filter_def)
  from DynamicThreadedGenerateData_union[OF 1] 1 2 show ?thesis by blast
qed

section \<open>Spacing\<close>

lemma SetUpOperators_no_spacing:
  "\<not> m_UseImageSpacing f \<Longrightarrow>
   SetUpOperators CreateDirectional f inputImage axes =
     Inr (map (\<lambda>i. FlipAxes (CreateDirectional (m_OrderOfAccuracy f))) axes)"
  by (induction axes) (simp_all add: SetUpOperator_def)

lemma SetUpOperators_zero_spacing:
  "m_UseImageSpacing f \<Longrightarrow> i \<in> set axes \<Longrightarrow> GetSpacing inputImage ! i = 0 \<Longrightarrow>
   SetUpOperators CreateDirectional f inputImage axes =
     Inl (ExceptionObject ''Image spacing cannot be zero.'')"
proof (induction axes)
  case Nil
  then show ?case by simp
next
  case (Cons a axes)
  show ?case
  proof (cases "GetSpacing inputImage ! a = 0")
    case True
    with Cons.prems show ?thesis by (simp add: SetUpOperator_def)
  next
    case False
    with Cons.prems have "i \<in> set axes" by auto
    from Cons.IH[OF Cons.prems(1) this Cons.prems(3)] False Cons.prems(1) show ?thesis
      by (simp add: SetUpOperator_def)
  qed
qed

lemma SetUpOperators_nonzero_spacing:
  "m_UseImageSpacing f \<Longrightarrow> \<forall>i\<in>set axes. GetSpacing inputImage ! i \<noteq> 0 \<Longrightarrow>
   SetUpOperators CreateDirectional f inputImage axes =
     Inr (map (\<lambda>i. ScaleCoefficients (1 / GetSpacing inputImage ! i)
                    (FlipAxes (CreateDirectional (m_OrderOfAccuracy f)))) axes)"
  by (induction axes) (simp_all add: SetUpOperator_def)

text \<open>
  C3, as the code has it. When spacing is in use and the input's spacing is exactly zero on
  some axis, the per-region computation throws the exception of \<^verbatim>\<open>itkExceptionMacro\<close> with
  the message \<^verbatim>\<open>Image spacing cannot be zero.\<close> (the message names no axis) before any
  sample is processed, and the filter, its output image included, is as it was. In every
  other case, a negative spacing and spacing not in use among them, it throws nothing.
\<close>

theorem DynamicThreadedGenerateData_spacing_check:
  assumes "GetInput f = Some inputImage" and "GetOutput f = Some outputImage"
  shows "(m_UseImageSpacing f \<and> (\<exists>i<ImageDimension inputImage. GetSpacing inputImage ! i = 0)
          \<longrightarrow> DynamicThreadedGenerateData CreateDirectional f outputRegionForThread =
                (Some (ExceptionObject ''Image spacing cannot be zero.''), f))
       \<and> (\<not> (m_UseImageSpacing f \<and> (\<exists>i<ImageDimension inputImage. GetSpacing inputImage ! i = 0))
          \<longrightarrow> fst (DynamicThreadedGenerateData CreateDirectional f outputRegionForThread) = None)"
proof (intro conjI impI)
  assume "m_UseImageSpacing f \<and> (\<exists>i<ImageDimension inputImage. GetSpacing inputImage ! i = 0)"
  then obtain i where flag: "m_UseImageSpacing f" and i: "i \<in> set [0..<ImageDimension inputImage]"
    and zero: "GetSpacing inputImage ! i = 0"
    by auto
  from SetUpOperators_zero_spacing[OF flag i zero]
  show "DynamicThreadedGenerateData CreateDirectional f outputRegionForThread =
      (Some (ExceptionObject ''Image spacing cannot be zero.''), f)"
    by (rule DynamicThreadedGenerateData_throws[OF assms(2) assms(1)])
next
  assume no: "\<not> (m_UseImageSpacing f \<and> (\<exists>i<ImageDimension inputImage. GetSpacing inputImage ! i = 0))"
  have "\<exists>ops. SetUpOperators CreateDirectional f inputImage [0..<ImageDimension inputImage] = Inr ops"
  proof (cases "m_UseImageSpacing f")
    case True
    with no have "\<forall>i\<in>set [0..<ImageDimension inputImage]. GetSpacing inputImage ! i \<noteq> 0" by auto
    from SetUpOperators_nonzero_spacing[OF True this] show ?thesis by blast
  next
    case False
    from SetUpOperators_no_spacing[OF False] show ?thesis by blast
  qed
  then obtain ops where "SetUpOperators CreateDirectional f inputImage [0..<ImageDimension inputImage] = Inr ops"
    by blast
  from DynamicThreadedGenerateData_writes[OF assms(2) assms(1) this, of outputRegionForThread]
  show "fst (DynamicThreadedGenerateData CreateDirectional f outputRegionForThread) = None"
    by simp
qed

theorem DynamicThreadedGenerateData_spacing_check_witness:
  "GetInput zero_filter = Some zero_input \<and> GetOutput zero_filter = Some example_output
   \<and> m_UseImageSpacing zero_filter \<and> (1 :: nat) < ImageDimension zero_input
   \<and> GetSpacing zero_input ! 1 = 0
   \<and> DynamicThreadedGenerateData example_operator zero_filter whole_block =
           (Some (ExceptionObject ''Image spacing cannot be zero.''), zero_filter)
   \<and> GetInput negative_filter = Some negative_input \<and> GetOutput negative_filter = Some example_output
   \<and> m_UseImageSpacing negative_filter
   \<and> GetSpacing negative_input = [- 1, 1 / 2] \<and> ImageDimension negative_input = 2
   \<and> fst (DynamicThreadedGenerateData example_operator negative_filter whole_block) = None"
proof -
  have 1: "GetInput zero_filter = Some zero_input" "GetOutput zero_filter = Some example_output"
    by (simp_all add: zero_filter_def example_filter_def)
  have 2: "m_UseImageSpacing zero_filter" "(1 :: nat) < ImageDimension zero_input"
    "GetSpacing zero_input ! 1 = 0"
    by (simp_all add: zero_filter_def zero_input_def example_filter_def example_input_def)
  then have 3: "m_UseImageSpacing zero_filter
      \<and> (\<exists>i<ImageDimension zero_input. GetSpacing zero_input ! i = 0)"
    by blast
  have 4: "GetInput negative_filter = Some negative_input" "GetOutput negative_filter = Some example_output"
    by (simp_all add: negative_filter_def example_filter_def)
  have 5: "m_UseImageSpacing negative_filter" "GetSpacing negative_input = [- 1, 1 / 2]"
    "ImageDimension negative_input = 2"
    by (simp_all add: negative_filter_def negative_input_def example_filter_def example_input_def)
  have "GetSpacing negative_input ! i \<noteq> 0" if "i < ImageDimension negative_input" for i
  proof -
    from that have "i = 0 \<or> i = 1" by (auto simp add: 5)
    then show ?thesis by (auto simp add: 5)
  qed
  then have 6: "\<not> (m_UseImageSpacing negative_filter
      \<and> (\<exists>i<ImageDimension negative_input. GetSpacing negative_input ! i = 0))"
    by blast
  from DynamicThreadedGenerateData_spacing_check[where CreateDirectional = example_operator, OF 1,
      of whole_block]
    DynamicThreadedGenerateData_spacing_check[where CreateDirectional = example_operator, OF 4,
      of whole_block]
    1 2 3 4 5 6
  show ?thesis by (simp only: simp_thms)
qed

text \<open>
  C3 as stated fails on a negative spacing: with spacing in use and a spacing of \<open>-1\<close> on
  the first axis, the computation throws nothing and writes the output image.
\<close>

theorem DynamicThreadedGenerateData_negative_spacing_counterexample:
  "GetInput negative_filter = Some negative_input \<and> m_UseImageSpacing negative_filter
   \<and> GetSpacing negative_input ! 0 < 0
   \<and> fst (DynamicThreadedGenerateData example_operator negative_filter whole_block) = None
   \<and> Pixel (the (GetOutput negative_filter)) [1, 1] = []
   \<and> Pixel (the (GetOutput (snd (DynamicThreadedGenerateData example_operator negative_filter
         whole_block)))) [1, 1] = [- 6, - 2]"
proof -
  have io: "GetOutput negative_filter = Some example_output" "GetInput negative_filter = Some negative_input"
    by (simp_all add: negative_filter_def example_filter_def)
  have flag: "m_UseImageSpacing negative_filter" by (simp add: negative_filter_def example_defs)
  have spacing: "GetSpacing negative_input ! 0 < 0" by (simp add: negative_input_def)
  have before: "Pixel (the (GetOutput negative_filter)) [1, 1] = []"
    by (simp add: io example_output_def)
  have N: "iterator_radius (ImageDimension negative_input)
      [\<lparr>GetRadius = 1, Coefficients = [1 / 2, 0, - 1 / 2]\<rparr>, \<lparr>GetRadius = 1, Coefficients = [- 1, 0, 1 :: real]\<rparr>]
      = [1, 1]"
    by (simp add: negative_input_def example_input_def iterator_radius_def numeral_2_eq_2)
  have mem: "[1, 1] \<in> set (region_indices whole_block)"
    by (simp add: block_defs region_indices_def intervals_def numeral_2_eq_2)
  define P where "P = (\<lambda>x. if x \<in> set (region_indices whole_block)
     then Value negative_filter [1, 1]
       [\<lparr>GetRadius = 1, Coefficients = [1 / 2, 0, - 1 / 2]\<rparr>, \<lparr>GetRadius = 1, Coefficients = [- 1, 0, 1]\<rparr>]
       negative_input x
     else Pixel example_output x)"
  have run: "DynamicThreadedGenerateData example_operator negative_filter whole_block =
      (None, negative_filter\<lparr>GetOutput := Some (example_output\<lparr>Pixel := P\<rparr>)\<rparr>)"
    unfolding P_def
    by (simp only: DynamicThreadedGenerateData_writes[OF io negative_operators, of whole_block] N)
  have "P [1, 1] = [- 6, - 2]"
    unfolding P_def using mem by (simp only: if_True negative_value)
  then have after: "Pixel (the (GetOutput (snd (DynamicThreadedGenerateData example_operator negative_filter
         whole_block)))) [1, 1] = [- 6, - 2]"
    by (simp add: run)
  have none: "fst (DynamicThreadedGenerateData example_operator negative_filter whole_block) = None"
    by (simp add: run)
  from io flag spacing before after none show ?thesis by simp
qed

text \<open>
  C10. When \<open>m_UseImageSpacing\<close> is false, the spacing is never looked at: whatever the
  input's spacing, zero and negative included, every axis gets the flipped operator as
  built, unscaled, no exception is thrown, and the region is computed with these operators.
\<close>

theorem DynamicThreadedGenerateData_ignores_spacing:
  assumes "GetInput f = Some inputImage" and "GetOutput f = Some outputImage"
    and "\<not> m_UseImageSpacing f"
    and "ops = replicate (ImageDimension inputImage) (FlipAxes (CreateDirectional (m_OrderOfAccuracy f)))"
  shows "SetUpOperators CreateDirectional f inputImage [0..<ImageDimension inputImage] = Inr ops
       \<and> DynamicThreadedGenerateData CreateDirectional f outputRegionForThread =
           (None, f\<lparr>GetOutput := Some (outputImage\<lparr>Pixel :=
              (\<lambda>x. if x \<in> set (region_indices outputRegionForThread)
                   then Value f (iterator_radius (ImageDimension inputImage) ops) ops inputImage x
                   else Pixel outputImage x)\<rparr>)\<rparr>)"
proof -
  have ops: "SetUpOperators CreateDirectional f inputImage [0..<ImageDimension inputImage] = Inr ops"
    using SetUpOperators_no_spacing[OF assms(3), of CreateDirectional inputImage "[0..<ImageDimension inputImage]"]
    by (simp add: assms(4) map_replicate_const)
  with DynamicThreadedGenerateData_writes[OF assms(2) assms(1) ops] show ?thesis by simp
qed

theorem DynamicThreadedGenerateData_ignores_spacing_witness:
  "GetInput unspaced_filter = Some zero_input \<and> GetOutput unspaced_filter = Some example_output
   \<and> \<not> m_UseImageSpacing unspaced_filter
   \<and> GetSpacing zero_input ! 1 = 0
   \<and> [\<lparr>GetRadius = 1, Coefficients = [- 1 / 2, 0, 1 / 2]\<rparr>, \<lparr>GetRadius = 1, Coefficients = [- 1 / 2, 0, 1 / 2]\<rparr>]
       = replicate (ImageDimension zero_input) (FlipAxes (example_operator (m_OrderOfAccuracy unspaced_filter)))
   \<and> SetUpOperators example_operator unspaced_filter zero_input [0..<ImageDimension zero_input] =
       Inr [\<lparr>GetRadius = 1, Coefficients = [- 1 / 2, 0, 1 / 2]\<rparr>, \<lparr>GetRadius = 1, Coefficients = [- 1 / 2, 0, 1 / 2]\<rparr>]
   \<and> fst (DynamicThreadedGenerateData example_operator unspaced_filter whole_block) = None"
proof -
  have 1: "GetInput unspaced_filter = Some zero_input" "GetOutput unspaced_filter = Some example_output"
    "\<not> m_UseImageSpacing unspaced_filter"
    by (simp_all add: unspaced_filter_def zero_filter_def example_defs)
  have 2: "[\<lparr>GetRadius = 1, Coefficients = [- 1 / 2, 0, 1 / 2]\<rparr>, \<lparr>GetRadius = 1, Coefficients = [- 1 / 2, 0, 1 / 2]\<rparr>]
       = replicate (ImageDimension zero_input) (FlipAxes (example_operator (m_OrderOfAccuracy unspaced_filter)))"
    by (simp add: unspaced_filter_def zero_filter_def zero_input_def example_defs FlipAxes_def numeral_2_eq_2)
  have 3: "GetSpacing zero_input ! 1 = 0" by (simp add: zero_input_def example_defs)
  from DynamicThreadedGenerateData_ignores_spacing[where CreateDirectional = example_operator, OF 1 2, of whole_block] 1 2 3
  show ?thesis by simp
qed

section \<open>The slices select the samples along each axis\<close>

lemma positional_digit:
  "\<forall>d\<in>set ds. d < w \<Longrightarrow> j < length ds \<Longrightarrow> (positional w ds div w ^ j) mod w = ds ! j"
proof (induction ds arbitrary: j)
  case Nil
  then show ?case by simp
next
  case (Cons d ds)
  then have d: "d < w" by simp
  show ?case
  proof (cases j)
    case 0
    with d show ?thesis by simp
  next
    case (Suc j')
    have "(d + w * positional w ds) div (w * w ^ j') = ((d + w * positional w ds) div w) div w ^ j'"
      by (simp add: div_mult2_eq)
    also have "(d + w * positional w ds) div w = positional w ds"
      using d by simp
    finally show ?thesis using Cons Suc by simp
  qed
qed

lemma positional_replicate:
  "w = 2 * r + 1 \<Longrightarrow> w ^ N = 2 * positional w (replicate N r) + 1"
  by (induction N) (simp_all add: algebra_simps)

lemma positional_update:
  "i < length ds \<Longrightarrow>
   positional w (ds[i := k]) + ds ! i * w ^ i = positional w ds + k * w ^ i"
proof (induction ds arbitrary: i)
  case Nil
  then show ?case by simp
next
  case (Cons d ds)
  show ?case
  proof (cases i)
    case 0
    then show ?thesis by simp
  next
    case (Suc i')
    with Cons.prems have "i' < length ds" by simp
    from Cons.IH[OF this] have
      "w * (positional w (ds[i' := k]) + ds ! i' * w ^ i') = w * (positional w ds + k * w ^ i')"
      by simp
    then show ?thesis using Suc by (simp add: algebra_simps)
  qed
qed

lemma NeighborhoodSize_replicate: "w = 2 * r + 1 \<Longrightarrow> NeighborhoodSize (replicate N r) = w ^ N"
  by (simp add: NeighborhoodSize_def prod_list_replicate)

lemma GetStride_replicate: "w = 2 * r + 1 \<Longrightarrow> i \<le> N \<Longrightarrow> GetStride (replicate N r) i = w ^ i"
  by (simp add: GetStride_def prod_list_replicate min_def)

lemma center_positional:
  assumes "w = 2 * r + 1"
  shows "NeighborhoodSize (replicate N r) div 2 = positional w (replicate N r)"
proof -
  have "NeighborhoodSize (replicate N r) = 2 * positional w (replicate N r) + 1"
    using NeighborhoodSize_replicate[OF assms, of N] positional_replicate[OF assms, of N] by simp
  then show ?thesis by simp
qed

lemma GetOffset_nth:
  "j < length radius \<Longrightarrow>
   GetOffset radius n ! j =
     int ((n div GetStride radius j) mod (2 * radius ! j + 1)) - int (radius ! j)"
  by (simp add: GetOffset_def)

lemma x_slice_no_underflow:
  assumes "i < N"
  shows "GetStride (replicate N r) i * replicate N r ! i \<le> NeighborhoodSize (replicate N r) div 2"
proof -
  define w where "w = 2 * r + 1"
  from positional_update[of i "replicate N r" w 0] assms
  have "positional w ((replicate N r)[i := 0]) + r * w ^ i = positional w (replicate N r)"
    by simp
  then have "w ^ i * r \<le> positional w (replicate N r)"
    by (simp add: mult.commute)
  moreover have "GetStride (replicate N r) i = w ^ i"
    using GetStride_replicate[OF w_def, of i N] assms by simp
  moreover have "replicate N r ! i = r" using assms by simp
  ultimately show ?thesis
    by (simp only: center_positional[OF w_def])
qed

lemma slice_position:
  assumes "i < N" and "w = 2 * r + 1"
  shows "NeighborhoodSize (replicate N r) div 2 - GetStride (replicate N r) i * replicate N r ! i
           + k * GetStride (replicate N r) i
         = positional w ((replicate N r)[i := k])"
proof -
  from positional_update[of i "replicate N r" w k] assms(1)
  have "positional w ((replicate N r)[i := k]) + r * w ^ i
      = positional w (replicate N r) + k * w ^ i"
    by simp
  moreover have stride: "GetStride (replicate N r) i = w ^ i"
    using GetStride_replicate[OF assms(2), of i N] assms(1) by simp
  moreover have nth: "replicate N r ! i = r" using assms(1) by simp
  moreover have "w ^ i * r \<le> positional w (replicate N r)"
    using x_slice_no_underflow[OF assms(1), of r]
    by (simp only: center_positional[OF assms(2)] stride nth)
  ultimately show ?thesis
    by (simp only: center_positional[OF assms(2)]) (simp add: mult.commute)
qed

lemma slice_offset:
  assumes "i < N" and "k \<le> 2 * r"
  shows "GetOffset (replicate N r)
           (NeighborhoodSize (replicate N r) div 2 - GetStride (replicate N r) i * replicate N r ! i
              + k * GetStride (replicate N r) i)
         = (replicate N 0)[i := int k - int r]"
proof -
  define w where "w = 2 * r + 1"
  define n where "n = NeighborhoodSize (replicate N r) div 2
      - GetStride (replicate N r) i * replicate N r ! i + k * GetStride (replicate N r) i"
  have n: "n = positional w ((replicate N r)[i := k])"
    unfolding n_def by (rule slice_position[OF assms(1) w_def])
  have digits: "\<forall>d\<in>set ((replicate N r)[i := k]). d < w"
    using assms(2) by (auto simp add: w_def dest!: set_update_subset_insert[THEN subsetD])
  have "GetOffset (replicate N r) n ! j = (replicate N 0)[i := int k - int r] ! j" if j: "j < N" for j
  proof -
    have "(n div w ^ j) mod w = (replicate N r)[i := k] ! j"
      unfolding n using positional_digit[OF digits, of j] j by simp
    moreover have "GetStride (replicate N r) j = w ^ j"
      using GetStride_replicate[OF w_def, of j N] j by simp
    moreover have "2 * replicate N r ! j + 1 = w" using j by (simp add: w_def)
    moreover have "GetOffset (replicate N r) n ! j =
        int ((n div GetStride (replicate N r) j) mod (2 * replicate N r ! j + 1)) - int (replicate N r ! j)"
      using j by (intro GetOffset_nth) simp
    ultimately have "GetOffset (replicate N r) n ! j = int ((replicate N r)[i := k] ! j) - int (replicate N r ! j)"
      by (simp only:)
    then show ?thesis using j assms(1) by (simp add: nth_list_update)
  qed
  then have "GetOffset (replicate N r) n = (replicate N 0)[i := int k - int r]"
    by (intro nth_equalityI) (simp_all add: GetOffset_def)
  then show ?thesis unfolding n_def .
qed

lemma foldl_enumerate_sum:
  fixes a :: "'b::comm_monoid_add"
  shows "foldl (\<lambda>sum (k, c). sum + g k c) a (enumerate n xs) = a + (\<Sum>k<length xs. g (n + k) (xs ! k))"
proof (induction xs arbitrary: a n)
  case Nil
  show ?case by simp
next
  case (Cons x xs)
  show ?case
    by (simp add: Cons sum.lessThan_Suc_shift add.assoc del: sum.lessThan_Suc)
qed

lemma foldl_upt_sum:
  fixes a :: "'b::comm_monoid_add"
  shows "foldl (\<lambda>sum j. sum + h j) a [0..<n] = a + (\<Sum>j<n. h j)"
  by (induction n) (simp_all add: add.assoc)

lemma SIP_sum:
  fixes img :: "('b::comm_semiring_0, 'b) image"
  shows "SIP s img radius idx oper =
     (\<Sum>k<length (Coefficients oper).
        GetPixel img radius idx (slice_start s + k * slice_stride s) * Coefficients oper ! k)"
  by (simp add: SIP_def foldl_enumerate_sum mult.commute)

lemma add_offset:
  "length idx = N \<Longrightarrow> i < N \<Longrightarrow>
   map (\<lambda>(x, d). x + d) (zip idx ((replicate N 0)[i := d])) = idx[i := idx ! i + (d :: int)]"
  by (rule nth_equalityI) (auto simp add: nth_list_update)

lemma SetUpOperator_shape:
  "SetUpOperator CreateDirectional f inputImage i = Inr oper \<Longrightarrow>
   GetRadius oper = GetRadius (CreateDirectional (m_OrderOfAccuracy f))
   \<and> length (Coefficients oper) = length (Coefficients (CreateDirectional (m_OrderOfAccuracy f)))"
  by (auto simp add: SetUpOperator_def FlipAxes_def ScaleCoefficients_def Let_def split: if_splits)

lemma SetUpOperators_shape:
  "SetUpOperators CreateDirectional f inputImage axes = Inr ops \<Longrightarrow>
   length ops = length axes
   \<and> (\<forall>oper\<in>set ops. GetRadius oper = GetRadius (CreateDirectional (m_OrderOfAccuracy f))
        \<and> length (Coefficients oper) = length (Coefficients (CreateDirectional (m_OrderOfAccuracy f))))"
proof (induction axes arbitrary: ops)
  case Nil
  then show ?case by simp
next
  case (Cons a axes)
  from Cons.prems obtain oper ops' where
    1: "SetUpOperator CreateDirectional f inputImage a = Inr oper"
    and 2: "SetUpOperators CreateDirectional f inputImage axes = Inr ops'"
    and 3: "ops = oper # ops'"
    by (auto split: sum.splits)
  from SetUpOperator_shape[OF 1] Cons.IH[OF 2] 3 show ?case by simp
qed

lemma iterator_radius_replicate:
  assumes "SetUpOperators CreateDirectional f inputImage [0..<N] = Inr ops" and "0 < N"
  shows "iterator_radius N ops = replicate N (GetRadius (CreateDirectional (m_OrderOfAccuracy f)))"
proof (cases ops)
  case Nil
  with SetUpOperators_shape[OF assms(1)] assms(2) show ?thesis by simp
next
  case (Cons op0 ops')
  then have "op0 \<in> set ops" by simp
  with SetUpOperators_shape[OF assms(1)]
  have "GetRadius op0 = GetRadius (CreateDirectional (m_OrderOfAccuracy f))" by blast
  then show ?thesis by (simp add: iterator_radius_def Cons)
qed

text \<open>
  C4. For every sample index \<open>idx\<close> and every axis \<open>i\<close>, the \<open>i\<close>-th component of the raw
  gradient is the inner product \<open>\<Sum>\<^sub>k sample k * coefficient k\<close> over the \<open>2 r + 1\<close> samples at
  \<open>idx\<close> shifted by \<open>k - r\<close> along axis \<open>i\<close> (the nearest sample of the buffered region
  where that lies outside) with the coefficients of the operator of that axis as the set-up
  loop left them, in their order: the convolution neither reorders nor scales them.
\<close>

theorem gradient_component:
  fixes inputImage :: "('b::{comm_semiring_0,one,inverse}, 'b) image"
  assumes "SetUpOperators CreateDirectional f inputImage [0..<ImageDimension inputImage] = Inr ops"
    and "wf_operator (CreateDirectional (m_OrderOfAccuracy f))"
    and "r = GetRadius (CreateDirectional (m_OrderOfAccuracy f))"
    and "radius = iterator_radius (ImageDimension inputImage) ops"
    and "i < ImageDimension inputImage" and "length idx = ImageDimension inputImage"
  shows "gradient radius ops inputImage idx ! i =
     (\<Sum>k<2 * r + 1.
        Pixel inputImage (ZeroFluxNeumann (GetBufferedRegion inputImage) (idx[i := idx ! i + int k - int r]))
        * Coefficients (ops ! i) ! k)"
proof -
  define N where "N = ImageDimension inputImage"
  have i: "i < N" and idx: "length idx = N" using assms(5,6) by (simp_all add: N_def)
  have radius: "radius = replicate N r"
    using iterator_radius_replicate[OF assms(1)] assms(3,4,5) by (simp add: N_def)
  from SetUpOperators_shape[OF assms(1)] assms(5) have "ops ! i \<in> set ops" by simp
  with SetUpOperators_shape[OF assms(1)] assms(2,3)
  have len: "length (Coefficients (ops ! i)) = 2 * r + 1"
    by (simp add: wf_operator_def)
  have sample: "GetPixel inputImage radius idx
        (slice_start (x_slice radius ops i) + k * slice_stride (x_slice radius ops i)) =
      Pixel inputImage (ZeroFluxNeumann (GetBufferedRegion inputImage) (idx[i := idx ! i + int k - int r]))"
    if "k < 2 * r + 1" for k
  proof -
    from that have k: "k \<le> 2 * r" by simp
    have "slice_start (x_slice radius ops i) + k * slice_stride (x_slice radius ops i) =
        NeighborhoodSize (replicate N r) div 2 - GetStride (replicate N r) i * replicate N r ! i
          + k * GetStride (replicate N r) i"
      by (simp add: x_slice_def radius)
    then have "GetOffset radius (slice_start (x_slice radius ops i) + k * slice_stride (x_slice radius ops i))
        = (replicate N 0)[i := int k - int r]"
      using slice_offset[OF i k] by (simp only: radius)
    moreover have "idx ! i + (int k - int r) = idx ! i + int k - int r" by simp
    ultimately show ?thesis
      by (simp only: GetPixel_def add_offset[OF idx i, of "int k - int r"])
  qed
  have "gradient radius ops inputImage idx ! i = SIP (x_slice radius ops i) inputImage radius idx (ops ! i)"
    using assms(5) by (simp add: gradient_def)
  also have "\<dots> = (\<Sum>k<2 * r + 1.
        GetPixel inputImage radius idx
          (slice_start (x_slice radius ops i) + k * slice_stride (x_slice radius ops i))
        * Coefficients (ops ! i) ! k)"
    by (simp only: SIP_sum len)
  also have "\<dots> = (\<Sum>k<2 * r + 1.
        Pixel inputImage (ZeroFluxNeumann (GetBufferedRegion inputImage) (idx[i := idx ! i + int k - int r]))
        * Coefficients (ops ! i) ! k)"
    by (rule sum.cong) (simp_all only: sample lessThan_iff)
  finally show ?thesis .
qed

theorem gradient_component_witness:
  "SetUpOperators example_operator example_filter example_input [0..<ImageDimension example_input] =
     Inr [\<lparr>GetRadius = 1, Coefficients = [- 1 / 4, 0, 1 / 4]\<rparr>,
          \<lparr>GetRadius = 1, Coefficients = [- 1, 0, 1]\<rparr>]
   \<and> wf_operator (example_operator (m_OrderOfAccuracy example_filter))
   \<and> 1 = GetRadius (example_operator (m_OrderOfAccuracy example_filter))
   \<and> [1, 1] = iterator_radius (ImageDimension example_input)
         [\<lparr>GetRadius = 1, Coefficients = [- 1 / 4, 0, 1 / 4]\<rparr>,
          \<lparr>GetRadius = 1, Coefficients = [- 1, 0, 1 :: real]\<rparr>]
   \<and> (0 :: nat) < ImageDimension example_input \<and> length [4, 3 :: int] = ImageDimension example_input
   \<and> gradient [1, 1]
         [\<lparr>GetRadius = 1, Coefficients = [- 1 / 4, 0, 1 / 4]\<rparr>,
          \<lparr>GetRadius = 1, Coefficients = [- 1, 0, 1]\<rparr>] example_input [4, 3] ! 0 =
       (\<Sum>k<2 * 1 + 1.
          Pixel example_input (ZeroFluxNeumann (GetBufferedRegion example_input)
            ([4, 3][0 := [4, 3] ! 0 + int k - int 1]))
          * Coefficients ([\<lparr>GetRadius = 1, Coefficients = [- 1 / 4, 0, 1 / 4]\<rparr>,
                           \<lparr>GetRadius = 1, Coefficients = [- 1, 0, 1]\<rparr>] ! 0) ! k)
   \<and> gradient [1, 1]
         [\<lparr>GetRadius = 1, Coefficients = [- 1 / 4, 0, 1 / 4]\<rparr>,
          \<lparr>GetRadius = 1, Coefficients = [- 1, 0, 1]\<rparr>] example_input [4, 3] ! 0 = 7 / 4"
proof -
  have 2: "wf_operator (example_operator (m_OrderOfAccuracy example_filter))"
    by (simp add: wf_operator_def example_operator_def)
  have 3: "1 = GetRadius (example_operator (m_OrderOfAccuracy example_filter))"
    by (simp add: example_operator_def)
  have 4: "[1, 1] = iterator_radius (ImageDimension example_input)
         [\<lparr>GetRadius = 1, Coefficients = [- 1 / 4, 0, 1 / 4]\<rparr>,
          \<lparr>GetRadius = 1, Coefficients = [- 1, 0, 1 :: real]\<rparr>]"
    by (simp add: iterator_radius_def example_input_def numeral_2_eq_2)
  have 5: "(0 :: nat) < ImageDimension example_input" by (simp add: example_input_def)
  have 6: "length [4, 3 :: int] = ImageDimension example_input" by (simp add: example_input_def)
  have 7: "gradient [1, 1]
         [\<lparr>GetRadius = 1, Coefficients = [- 1 / 4, 0, 1 / 4]\<rparr>,
          \<lparr>GetRadius = 1, Coefficients = [- 1, 0, 1]\<rparr>] example_input [4, 3] ! 0 = 7 / 4"
    by (simp add: example_defs iterator_defs upt_0_2)
  from gradient_component[OF example_operators 2 3 4 5 6] example_operators 2 3 4 5 6 7
  show ?thesis by (simp only: simp_thms)
qed

section \<open>Direction\<close>

lemma length_gradient: "length (gradient radius ops inputImage idx) = ImageDimension inputImage"
  by (simp add: gradient_def)

lemma TransformLocalVectorToPhysicalVector_sum:
  fixes img :: "('b::{comm_monoid_add,times}, 'p) image"
  shows "TransformLocalVectorToPhysicalVector img v =
     map (\<lambda>i. \<Sum>j<ImageDimension img. GetDirection img ! i ! j * v ! j) [0..<ImageDimension img]"
  by (simp add: TransformLocalVectorToPhysicalVector_def foldl_upt_sum)

text \<open>
  C6. For every sample \<open>idx\<close> of the region, the value the computation stores in the output
  image at \<open>idx\<close> is the direction matrix times the raw gradient at \<open>idx\<close> when
  \<open>m_UseImageDirection\<close> is set, and the raw gradient itself when it is not: it depends on
  the flag, the matrix and the raw gradient of that sample only, not on the output image's
  former content nor on any other sample.
\<close>

theorem stored_value:
  fixes inputImage :: "('b::{comm_monoid_add,times,one,inverse}, 'b) image"
  assumes "GetInput f = Some inputImage" and "GetOutput f = Some outputImage"
    and "SetUpOperators CreateDirectional f inputImage [0..<ImageDimension inputImage] = Inr ops"
    and "idx \<in> set (region_indices outputRegionForThread)"
    and "g = gradient (iterator_radius (ImageDimension inputImage) ops) ops inputImage idx"
  shows "\<exists>outputImage'.
           DynamicThreadedGenerateData CreateDirectional f outputRegionForThread =
             (None, f\<lparr>GetOutput := Some outputImage'\<rparr>)
           \<and> Pixel outputImage' idx =
               (if m_UseImageDirection f
                then map (\<lambda>i. \<Sum>j<ImageDimension inputImage. GetDirection inputImage ! i ! j * g ! j)
                       [0..<ImageDimension inputImage]
                else g)"
proof -
  define outputImage' where "outputImage' = outputImage\<lparr>Pixel :=
     (\<lambda>x. if x \<in> set (region_indices outputRegionForThread)
          then Value f (iterator_radius (ImageDimension inputImage) ops) ops inputImage x
          else Pixel outputImage x)\<rparr>"
  have "DynamicThreadedGenerateData CreateDirectional f outputRegionForThread =
      (None, f\<lparr>GetOutput := Some outputImage'\<rparr>)"
    unfolding outputImage'_def by (rule DynamicThreadedGenerateData_writes[OF assms(2) assms(1) assms(3)])
  moreover have "Pixel outputImage' idx =
      (if m_UseImageDirection f
       then map (\<lambda>i. \<Sum>j<ImageDimension inputImage. GetDirection inputImage ! i ! j * g ! j)
              [0..<ImageDimension inputImage]
       else g)"
    using assms(4,5) by (simp add: outputImage'_def Value_def TransformLocalVectorToPhysicalVector_sum)
  ultimately show ?thesis by blast
qed

theorem stored_value_witness:
  "GetInput example_filter = Some example_input \<and> GetOutput example_filter = Some example_output
   \<and> SetUpOperators example_operator example_filter example_input [0..<ImageDimension example_input] =
       Inr [\<lparr>GetRadius = 1, Coefficients = [- 1 / 4, 0, 1 / 4]\<rparr>,
            \<lparr>GetRadius = 1, Coefficients = [- 1, 0, 1]\<rparr>]
   \<and> [1, 1] \<in> set (region_indices whole_block)
   \<and> [1, 6] = gradient (iterator_radius (ImageDimension example_input)
                  [\<lparr>GetRadius = 1, Coefficients = [- 1 / 4, 0, 1 / 4]\<rparr>,
                   \<lparr>GetRadius = 1, Coefficients = [- 1, 0, 1]\<rparr>])
                [\<lparr>GetRadius = 1, Coefficients = [- 1 / 4, 0, 1 / 4]\<rparr>,
                 \<lparr>GetRadius = 1, Coefficients = [- 1, 0, 1]\<rparr>] example_input [1, 1]
   \<and> m_UseImageDirection example_filter
   \<and> (\<exists>outputImage'.
           DynamicThreadedGenerateData example_operator example_filter whole_block =
             (None, example_filter\<lparr>GetOutput := Some outputImage'\<rparr>)
           \<and> Pixel outputImage' [1, 1] = [- 6, 1])"
proof -
  have 1: "GetInput example_filter = Some example_input" by (simp add: example_filter_def)
  have 2: "GetOutput example_filter = Some example_output" by (simp add: example_filter_def)
  have 4: "[1, 1] \<in> set (region_indices whole_block)"
    by (simp add: block_defs region_indices_def intervals_def numeral_2_eq_2)
  have 5: "[1, 6] = gradient (iterator_radius (ImageDimension example_input)
                  [\<lparr>GetRadius = 1, Coefficients = [- 1 / 4, 0, 1 / 4]\<rparr>,
                   \<lparr>GetRadius = 1, Coefficients = [- 1, 0, 1]\<rparr>])
                [\<lparr>GetRadius = 1, Coefficients = [- 1 / 4, 0, 1 / 4]\<rparr>,
                 \<lparr>GetRadius = 1, Coefficients = [- 1, 0, 1]\<rparr>] example_input [1, 1]"
    by (simp add: example_defs iterator_defs upt_0_2)
  have 6: "m_UseImageDirection example_filter" by (simp add: example_filter_def)
  have 7: "map (\<lambda>i. \<Sum>j<ImageDimension example_input. GetDirection example_input ! i ! j * [1, 6] ! j)
             [0..<ImageDimension example_input] = [- 6, 1]"
    by (simp add: example_input_def upt_0_2 numeral_2_eq_2)
  from stored_value[OF 1 2 example_operators 4 5] 6 7
  have "\<exists>outputImage'.
           DynamicThreadedGenerateData example_operator example_filter whole_block =
             (None, example_filter\<lparr>GetOutput := Some outputImage'\<rparr>)
           \<and> Pixel outputImage' [1, 1] = [- 6, 1]"
    by (simp only: if_True)
  with 1 2 example_operators 4 5 6 show ?thesis by (simp only: simp_thms)
qed

lemma identity_row:
  fixes v :: "'b::{zero,one,plus,times} list"
  assumes "(0::'b) + 0 = 0" and "list_all unit_laws v" and "n \<le> length v"
  shows "foldl (\<lambda>sum j. sum + (if i = j then 1 else 0) * v ! j) 0 [0..<n] = (if i < n then v ! i else 0)"
  using assms(3)
proof (induction n)
  case 0
  show ?case by simp
next
  case (Suc n)
  from Suc.prems have n: "n < length v" by simp
  with assms(2) have laws: "unit_laws (v ! n)" by (simp add: list_all_length)
  have i: "unit_laws (v ! i)" if "i < n" using that n assms(2) by (simp add: list_all_length)
  from Suc.IH n have IH: "foldl (\<lambda>sum j. sum + (if i = j then 1 else 0) * v ! j) 0 [0..<n] =
      (if i < n then v ! i else 0)" by simp
  consider "i < n" | "i = n" | "n < i" by linarith
  then show ?case
  proof cases
    case 1
    with IH laws i[OF 1] show ?thesis by (simp add: unit_laws_def)
  next
    case 2
    with IH laws show ?thesis by (simp add: unit_laws_def)
  next
    case 3
    with IH laws assms(1) show ?thesis by (simp add: unit_laws_def)
  qed
qed

lemma identity_transform:
  fixes img :: "('b::{zero,one,plus,times}, 'p) image"
  assumes "GetDirection img = identity_matrix (ImageDimension img)"
    and "length v = ImageDimension img"
    and "(0::'b) + 0 = 0" and "list_all unit_laws v"
  shows "TransformLocalVectorToPhysicalVector img v = v"
proof (rule nth_equalityI)
  show "length (TransformLocalVectorToPhysicalVector img v) = length v"
    by (simp add: TransformLocalVectorToPhysicalVector_def assms(2))
next
  fix i
  assume "i < length (TransformLocalVectorToPhysicalVector img v)"
  then have i: "i < ImageDimension img" by (simp add: TransformLocalVectorToPhysicalVector_def)
  have "foldl (\<lambda>sum j. sum + GetDirection img ! i ! j * v ! j) 0 [0..<ImageDimension img] =
      foldl (\<lambda>sum j. sum + (if i = j then 1 else 0) * v ! j) 0 [0..<ImageDimension img]"
    by (rule foldl_cong) (simp_all add: assms(1) identity_matrix_def i)
  also have "\<dots> = v ! i"
    using identity_row[OF assms(3,4), of "ImageDimension img" i] i assms(2) by simp
  finally show "TransformLocalVectorToPhysicalVector img v ! i = v ! i"
    using i by (simp add: TransformLocalVectorToPhysicalVector_def)
qed

text \<open>
  C8, amended. For every input image whose direction matrix is the identity, and every
  region at whose samples the components of the raw gradient obey the laws of zero and one
  (\<open>0 x = 0\<close>, \<open>1 x = x\<close>, \<open>0 + x = x + 0 = x\<close>, as numbers do and NaN does not), the
  computation with \<open>m_UseImageDirection\<close> set and the computation with it cleared, all else
  equal, throw the same exception or none and leave the same output image. No law is
  assumed of the arithmetic itself.
\<close>

theorem identity_direction:
  fixes inputImage :: "('b::{zero,one,plus,times,inverse}, 'b) image"
  assumes "GetInput f = Some inputImage"
    and "GetDirection inputImage = identity_matrix (ImageDimension inputImage)"
    and "(0::'b) + 0 = 0"
    and "\<And>ops. SetUpOperators CreateDirectional f inputImage [0..<ImageDimension inputImage] = Inr ops \<Longrightarrow>
           list_all (\<lambda>idx. list_all unit_laws
               (gradient (iterator_radius (ImageDimension inputImage) ops) ops inputImage idx))
             (region_indices R)"
  shows "fst (DynamicThreadedGenerateData CreateDirectional (f\<lparr>m_UseImageDirection := True\<rparr>) R) =
         fst (DynamicThreadedGenerateData CreateDirectional (f\<lparr>m_UseImageDirection := False\<rparr>) R)
       \<and> GetOutput (snd (DynamicThreadedGenerateData CreateDirectional (f\<lparr>m_UseImageDirection := True\<rparr>) R)) =
         GetOutput (snd (DynamicThreadedGenerateData CreateDirectional (f\<lparr>m_UseImageDirection := False\<rparr>) R))"
proof (cases "GetOutput f")
  case None
  then show ?thesis by (simp add: DynamicThreadedGenerateData_null)
next
  case (Some outputImage)
  let ?on = "f\<lparr>m_UseImageDirection := True\<rparr>" and ?off = "f\<lparr>m_UseImageDirection := False\<rparr>"
  have io: "GetOutput ?on = Some outputImage" "GetInput ?on = Some inputImage"
    "GetOutput ?off = Some outputImage" "GetInput ?off = Some inputImage"
    using assms(1) Some by simp_all
  have ops: "SetUpOperators CreateDirectional f' inputImage axes =
      SetUpOperators CreateDirectional f inputImage axes" if "f' = ?on \<or> f' = ?off" for f' axes
    using that by (intro SetUpOperators_cong) auto
  show ?thesis
  proof (cases "SetUpOperators CreateDirectional f inputImage [0..<ImageDimension inputImage]")
    case (Inl e)
    with ops have "SetUpOperators CreateDirectional ?on inputImage [0..<ImageDimension inputImage] = Inl e"
      and "SetUpOperators CreateDirectional ?off inputImage [0..<ImageDimension inputImage] = Inl e"
      by simp_all
    from DynamicThreadedGenerateData_throws[OF io(1,2) this(1)]
      DynamicThreadedGenerateData_throws[OF io(3,4) this(2)]
    show ?thesis by (simp add: Some)
  next
    case (Inr ops')
    with ops have on: "SetUpOperators CreateDirectional ?on inputImage [0..<ImageDimension inputImage] = Inr ops'"
      and off: "SetUpOperators CreateDirectional ?off inputImage [0..<ImageDimension inputImage] = Inr ops'"
      by simp_all
    define radius where "radius = iterator_radius (ImageDimension inputImage) ops'"
    have "Value ?on radius ops' inputImage x = Value ?off radius ops' inputImage x"
      if "x \<in> set (region_indices R)" for x
    proof -
      from assms(4)[OF Inr] that have "list_all unit_laws (gradient radius ops' inputImage x)"
        by (simp add: list_all_iff radius_def)
      from identity_transform[OF assms(2) length_gradient assms(3) this]
      show ?thesis by (simp add: Value_def)
    qed
    then have "(\<lambda>x. if x \<in> set (region_indices R)
          then Value ?on radius ops' inputImage x
          else Pixel outputImage x) =
        (\<lambda>x. if x \<in> set (region_indices R)
          then Value ?off radius ops' inputImage x
          else Pixel outputImage x)"
      by (intro ext) simp
    from this[unfolded radius_def] show ?thesis
      by (simp add: DynamicThreadedGenerateData_writes[OF io(1,2) on, of R]
          DynamicThreadedGenerateData_writes[OF io(3,4) off, of R])
  qed
qed

theorem identity_direction_witness:
  "GetInput floating_filter = Some floating_input
   \<and> GetDirection floating_input = identity_matrix (ImageDimension floating_input)
   \<and> (0 :: floating) + 0 = 0
   \<and> SetUpOperators floating_operator floating_filter floating_input [0..<ImageDimension floating_input] =
       Inr [\<lparr>GetRadius = 1, Coefficients = [Finite (- 1 / 4), Finite 0, Finite (1 / 4)]\<rparr>,
            \<lparr>GetRadius = 1, Coefficients = [Finite (- 1), Finite 0, Finite 1]\<rparr>]
   \<and> map (gradient (iterator_radius (ImageDimension floating_input)
             [\<lparr>GetRadius = 1, Coefficients = [Finite (- 1 / 4), Finite 0, Finite (1 / 4)]\<rparr>,
              \<lparr>GetRadius = 1, Coefficients = [Finite (- 1), Finite 0, Finite 1]\<rparr>])
           [\<lparr>GetRadius = 1, Coefficients = [Finite (- 1 / 4), Finite 0, Finite (1 / 4)]\<rparr>,
            \<lparr>GetRadius = 1, Coefficients = [Finite (- 1), Finite 0, Finite 1]\<rparr>] floating_input)
         (region_indices whole_block) =
       [[Finite 1, Finite 6], [Finite 2, Finite 6], [Finite 1, Finite 6], [Finite 2, Finite 6]]
   \<and> fst (DynamicThreadedGenerateData floating_operator (floating_filter\<lparr>m_UseImageDirection := True\<rparr>)
            whole_block) =
       fst (DynamicThreadedGenerateData floating_operator (floating_filter\<lparr>m_UseImageDirection := False\<rparr>)
            whole_block)
   \<and> GetOutput (snd (DynamicThreadedGenerateData floating_operator
          (floating_filter\<lparr>m_UseImageDirection := True\<rparr>) whole_block)) =
       GetOutput (snd (DynamicThreadedGenerateData floating_operator
          (floating_filter\<lparr>m_UseImageDirection := False\<rparr>) whole_block))"
proof -
  let ?ops = "[\<lparr>GetRadius = 1, Coefficients = [Finite (- 1 / 4), Finite 0, Finite (1 / 4)]\<rparr>,
               \<lparr>GetRadius = 1, Coefficients = [Finite (- 1), Finite 0, Finite 1]\<rparr>]"
  have 1: "GetInput floating_filter = Some floating_input" by (simp add: floating_filter_def)
  have 2: "GetDirection floating_input = identity_matrix (ImageDimension floating_input)"
    by (simp add: floating_input_def identity_matrix_def upt_0_2 floating_arith)
  have 3: "(0 :: floating) + 0 = 0" by (simp add: floating_arith)
  have 4: "map (gradient (iterator_radius (ImageDimension floating_input) ?ops) ?ops floating_input)
         (region_indices whole_block) =
       [[Finite 1, Finite 6], [Finite 2, Finite 6], [Finite 1, Finite 6], [Finite 2, Finite 6]]"
    by (simp only: floating_radius whole_block_indices floating_gradients)
  have 5: "list_all (\<lambda>idx. list_all unit_laws
               (gradient (iterator_radius (ImageDimension floating_input) ops) ops floating_input idx))
             (region_indices whole_block)"
    if "SetUpOperators floating_operator floating_filter floating_input
          [0..<ImageDimension floating_input] = Inr ops" for ops
  proof -
    from that floating_operators have ops: "ops = ?ops" by simp
    have "list_all (list_all unit_laws)
        (map (gradient (iterator_radius (ImageDimension floating_input) ?ops) ?ops floating_input)
           (region_indices whole_block))"
      by (simp only: 4) (simp add: floating_unit_laws)
    then show ?thesis by (simp add: ops list_all_iff)
  qed
  from identity_direction[where CreateDirectional = floating_operator and R = whole_block, OF 1 2 3 5]
    1 2 3 floating_operators 4
  show ?thesis by (simp only: simp_thms)
qed

text \<open>
  C8 as stated, for every input image, fails on a sample that is not a number. The image
  has the identity as direction matrix and NaN at \<open>(2, 1)\<close>; the raw gradient at \<open>(1, 1)\<close>
  is \<open>(NaN, 6)\<close>, which the computation stores when \<open>m_UseImageDirection\<close> is cleared. When
  it is set, the second row of the matrix gives \<open>0 NaN + 1 6\<close>, and the computation stores
  \<open>(NaN, NaN)\<close>.
\<close>

theorem identity_direction_nan_counterexample:
  "GetInput nan_filter = Some nan_input
   \<and> GetDirection nan_input = identity_matrix (ImageDimension nan_input)
   \<and> Pixel nan_input [2, 1] = NaN
   \<and> Pixel (the (GetOutput (snd (DynamicThreadedGenerateData floating_operator
         (nan_filter\<lparr>m_UseImageDirection := True\<rparr>) whole_block)))) [1, 1] = [NaN, NaN]
   \<and> Pixel (the (GetOutput (snd (DynamicThreadedGenerateData floating_operator
         (nan_filter\<lparr>m_UseImageDirection := False\<rparr>) whole_block)))) [1, 1] = [NaN, Finite 6]"
proof -
  let ?ops = "[\<lparr>GetRadius = 1, Coefficients = [Finite (- 1 / 4), Finite 0, Finite (1 / 4)]\<rparr>,
               \<lparr>GetRadius = 1, Coefficients = [Finite (- 1), Finite 0, Finite 1]\<rparr>]"
  let ?on = "nan_filter\<lparr>m_UseImageDirection := True\<rparr>"
  let ?off = "nan_filter\<lparr>m_UseImageDirection := False\<rparr>"
  have 1: "GetInput nan_filter = Some nan_input" by (simp add: nan_filter_def)
  have 2: "GetDirection nan_input = identity_matrix (ImageDimension nan_input)"
    by (simp add: nan_input_def floating_input_def identity_matrix_def upt_0_2 floating_arith)
  have 3: "Pixel nan_input [2, 1] = NaN" by (simp add: nan_input_def)
  have io: "GetOutput ?on = Some floating_output" "GetInput ?on = Some nan_input"
    "GetOutput ?off = Some floating_output" "GetInput ?off = Some nan_input"
    by (simp_all add: nan_filter_def floating_filter_def)
  have "SetUpOperators floating_operator ?on nan_input [0..<ImageDimension nan_input] =
      SetUpOperators floating_operator nan_filter nan_input [0..<ImageDimension nan_input]"
    by (rule SetUpOperators_cong) simp_all
  then have on: "SetUpOperators floating_operator ?on nan_input [0..<ImageDimension nan_input] = Inr ?ops"
    by (simp only: nan_operators)
  have "SetUpOperators floating_operator ?off nan_input [0..<ImageDimension nan_input] =
      SetUpOperators floating_operator nan_filter nan_input [0..<ImageDimension nan_input]"
    by (rule SetUpOperators_cong) simp_all
  then have off: "SetUpOperators floating_operator ?off nan_input [0..<ImageDimension nan_input] = Inr ?ops"
    by (simp only: nan_operators)
  have mem: "[1, 1] \<in> set (region_indices whole_block)"
    by (simp add: whole_block_indices)
  have "Value ?on [1, 1] ?ops nan_input [1, 1] = [NaN, NaN]"
    by (simp only: Value_def nan_gradient nan_transform) simp
  with mem have P: "(if [1, 1] \<in> set (region_indices whole_block)
      then Value ?on [1, 1] ?ops nan_input [1, 1] else Pixel floating_output [1, 1]) = [NaN, NaN]"
    by (simp only: if_True)
  have "Value ?off [1, 1] ?ops nan_input [1, 1] = [NaN, Finite 6]"
    by (simp only: Value_def nan_gradient) simp
  with mem have Q: "(if [1, 1] \<in> set (region_indices whole_block)
      then Value ?off [1, 1] ?ops nan_input [1, 1] else Pixel floating_output [1, 1]) = [NaN, Finite 6]"
    by (simp only: if_True)
  have 4: "Pixel (the (GetOutput (snd (DynamicThreadedGenerateData floating_operator ?on whole_block))))
      [1, 1] = [NaN, NaN]"
    by (simp only: DynamicThreadedGenerateData_writes[OF io(1,2) on, of whole_block] floating_radius)
      (simp add: P)
  have 5: "Pixel (the (GetOutput (snd (DynamicThreadedGenerateData floating_operator ?off whole_block))))
      [1, 1] = [NaN, Finite 6]"
    by (simp only: DynamicThreadedGenerateData_writes[OF io(3,4) off, of whole_block] floating_radius)
      (simp add: Q)
  from 1 2 3 4 5 show ?thesis by (simp only: simp_thms)
qed

end
